theory Spec2Isabelle
  imports Main "HOL-Library.AList" "HOL-Library.Sublist"
begin

section \<open>Python values, dictionaries and exceptions\<close>

text \<open>
  The data descriptions handled by \<^verbatim>\<open>featuretools/entityset/serialization.py\<close> are
  JSON documents. Free-form parts (keyword arguments, type options, interesting values) are
  values of type \<open>json\<close>; a Python \<^verbatim>\<open>dict\<close> is an association list in insertion order,
  read with \<open>map_of\<close> and changed with \<open>AList.update\<close> and \<open>AList.delete\<close>.
\<close>

datatype json =
    JNull
  | JBool bool
  | JInt int
  | JStr string
  | JList "json list"
  | JObj "(string \<times> json) list"

type_synonym kwargs = "(string \<times> json) list"

text \<open>Every \<^verbatim>\<open>raise\<close>, failed \<^verbatim>\<open>assert\<close> and library exception is a value.\<close>

datatype error =
    ValueError string
  | KeyError string
  | TypeError string
  | AttributeError string
  | AssertionError string
  | LookupError string
  | FileExistsError string
  | FileNotFoundError string
  | NotADirectoryError string
  | IsADirectoryError string
  | JSONDecodeError string
  | EngineError string

text \<open>\<^verbatim>\<open>sep.join(xs)\<close> on strings.\<close>

fun str_join :: "string \<Rightarrow> string list \<Rightarrow> string" where
  "str_join sep [] = []"
| "str_join sep [x] = x"
| "str_join sep (x # y # ys) = x @ sep @ str_join sep (y # ys)"

text \<open>
  \<^verbatim>\<open>str.lower()\<close>: the ASCII letters \<^verbatim>\<open>A\<close> to \<^verbatim>\<open>Z\<close> are mapped to \<^verbatim>\<open>a\<close> to \<^verbatim>\<open>z\<close>; every
  other character is kept (the case mapping of characters outside ASCII is not modelled).
\<close>

definition lower_char :: "char \<Rightarrow> char" where
  "lower_char c =
     (let n = (of_char c :: nat) in if 65 \<le> n \<and> n \<le> 90 then char_of (n + 32) else c)"

definition lower :: "string \<Rightarrow> string" where
  "lower s = map lower_char s"

section \<open>The type registry\<close>

text \<open>
  The module \<^verbatim>\<open>variable_types\<close> is imported, not defined, by the serialization module. Of a
  variable class only its \<^verbatim>\<open>type_string\<close> attribute is read here: a string, or Python's \<^verbatim>\<open>None\<close>
  (\<open>None\<close> below). A module attribute either is such a class or has no \<^verbatim>\<open>type_string\<close>.
\<close>

record variable_type =
  vt_name :: string
  type_string :: "string option"

datatype module_attr = HasTypeString variable_type | NoTypeString

text \<open>
  \<^verbatim>\<open>VARIABLE_TYPES = {getattr(variable_types, type).type_string: getattr(variable_types, type)
      for type in dir(variable_types) if hasattr(getattr(variable_types, type), 'type_string')}\<close>
  over the attributes of the module in \<^verbatim>\<open>dir\<close> order. A later attribute with the same
  \<^verbatim>\<open>type_string\<close> replaces an earlier one, as in a dict comprehension.
\<close>

fun VARIABLE_TYPES_from :: "module_attr list \<Rightarrow> (string option \<rightharpoonup> variable_type) \<Rightarrow> (string option \<rightharpoonup> variable_type)" where
  "VARIABLE_TYPES_from [] d = d"
| "VARIABLE_TYPES_from (NoTypeString # attrs) d = VARIABLE_TYPES_from attrs d"
| "VARIABLE_TYPES_from (HasTypeString c # attrs) d = VARIABLE_TYPES_from attrs (d(type_string c \<mapsto> c))"

definition VARIABLE_TYPES :: "module_attr list \<Rightarrow> (string option \<rightharpoonup> variable_type)" where
  "VARIABLE_TYPES attrs = VARIABLE_TYPES_from attrs Map.empty"

text \<open>
  \<^verbatim>\<open>VARIABLE_TYPES.get(type, VARIABLE_TYPES.get(None))\<close>. The key is a value read from a JSON
  document: a string is looked up, \<^verbatim>\<open>null\<close> is the key \<^verbatim>\<open>None\<close>, a number or boolean is
  the key of no class, and a list or an object is unhashable. The result \<open>None\<close> is Python's
  \<^verbatim>\<open>None\<close>: the registry has no entry under \<^verbatim>\<open>None\<close> either.
\<close>

definition registry_get :: "(string option \<rightharpoonup> variable_type) \<Rightarrow> json \<Rightarrow> error + variable_type option" where
  "registry_get reg tag =
     (case tag of
        JStr s \<Rightarrow> Inr (case reg (Some s) of Some c \<Rightarrow> Some c | None \<Rightarrow> reg None)
      | JNull \<Rightarrow> Inr (reg None)
      | JBool b \<Rightarrow> Inr (reg None)
      | JInt i \<Rightarrow> Inr (reg None)
      | JList xs \<Rightarrow> Inl (TypeError ''unhashable type: 'list' '')
      | JObj kvs \<Rightarrow> Inl (TypeError ''unhashable type: 'dict' ''))"

section \<open>Variable descriptions\<close>

text \<open>
  A variable fragment is \<^verbatim>\<open>{id, type, properties: {interesting_values}}\<close>, where \<^verbatim>\<open>type\<close> is
  either a string or an object.
\<close>

datatype type_field = TypeStr string | TypeObj "(string \<times> json) list"

record variable_description =
  vd_id :: string
  vd_type :: type_field
  vd_interesting_values :: json

text \<open>
  Modelled from the spec: the constructors of the variable classes are not part of the
  serialization module. A live variable is the record of what it was constructed from (class,
  identifier, entity, keyword options) and of the attribute assigned after construction.
\<close>

record 'e variable_instance =
  vi_class :: variable_type
  vi_id :: string
  vi_entity :: 'e
  vi_options :: kwargs
  vi_interesting_values :: json

text \<open>
  What \<^verbatim>\<open>from_variable_description\<close> returns: the class found in the registry (Python's
  \<^verbatim>\<open>None\<close> when there is none) if no entity is given, the instantiated variable otherwise.
\<close>

datatype 'e variable = VariableClass "variable_type option" | VariableInstance "'e variable_instance"

text \<open>
  \<^verbatim>\<open>from_variable_description(description, entity=None)\<close>. \<^verbatim>\<open>description['type'].pop('value')\<close>
  changes the caller's dictionary, so the description is returned with the result. A missing
  \<^verbatim>\<open>'value'\<close> key raises \<^verbatim>\<open>KeyError\<close> and leaves the dictionary as it was; calling Python's
  \<^verbatim>\<open>None\<close> raises \<^verbatim>\<open>TypeError\<close>.
\<close>

definition from_variable_description ::
  "(string option \<rightharpoonup> variable_type) \<Rightarrow> variable_description \<Rightarrow> 'e option
     \<Rightarrow> (error + 'e variable) \<times> variable_description" where
  "from_variable_description reg description entity =
     (let is_type_string = (case vd_type description of TypeStr s \<Rightarrow> True | TypeObj d \<Rightarrow> False);
          popped = (case vd_type description of
                      TypeStr s \<Rightarrow> Inr (JStr s, description)
                    | TypeObj d \<Rightarrow>
                        (case map_of d ''value'' of
                           None \<Rightarrow> Inl (KeyError ''value'')
                         | Some v \<Rightarrow> Inr (v, description\<lparr>vd_type := TypeObj (AList.delete ''value'' d)\<rparr>)))
      in case popped of
           Inl e \<Rightarrow> (Inl e, description)
         | Inr (tag, description') \<Rightarrow>
             (case registry_get reg tag of
                Inl e \<Rightarrow> (Inl e, description')
              | Inr variable \<Rightarrow>
                  (case entity of
                     None \<Rightarrow> (Inr (VariableClass variable), description')
                   | Some ent \<Rightarrow>
                       (let kwargs = (if is_type_string then []
                                      else (case vd_type description' of TypeStr s \<Rightarrow> [] | TypeObj d \<Rightarrow> d))
                        in case variable of
                             None \<Rightarrow> (Inl (TypeError '''NoneType' object is not callable''), description')
                           | Some cls \<Rightarrow>
                               (Inr (VariableInstance
                                  \<lparr>vi_class = cls, vi_id = vd_id description', vi_entity = ent,
                                   vi_options = kwargs,
                                   vi_interesting_values = vd_interesting_values description'\<rparr>),
                                description')))))"

section \<open>Tables\<close>

text \<open>
  A pandas \<^verbatim>\<open>DataFrame\<close> is its list of columns, each with a label, a dtype (by name, as
  \<^verbatim>\<open>str(dtype)\<close> prints it) and its cells. Column labels are strings, so
  \<^verbatim>\<open>df.columns.astype('unicode')\<close> changes nothing here. The row index is not modelled.
\<close>

datatype cell = CNone | CBool bool | CInt int | CText string | CTuple "cell list"

record column =
  col_name :: string
  col_dtype :: string
  col_cells :: "cell list"

type_synonym dataframe = "column list"

section \<open>Data descriptions\<close>

text \<open>
  The manifest has a fixed shape. Keys the code reads with \<^verbatim>\<open>.get\<close>, and keys of
  \<^verbatim>\<open>loading_info\<close> that exist only once the table is written, are optional.
\<close>

record loading_info =
  li_location :: "string option"
  li_type :: "string option"
  li_params :: "kwargs option"
  li_dtypes :: "(string \<times> string) list"

record entity_description =
  ed_id :: string
  ed_index :: "string option"
  ed_time_index :: "string option"
  ed_secondary_time_index :: "json option"
  ed_last_time_index :: bool
  ed_variables :: "variable_description list"
  ed_loading_info :: loading_info

record relationship_description =
  rd_parent :: "string \<times> string"
  rd_child :: "string \<times> string"

record data_description =
  dd_entities :: "(string \<times> entity_description) list"
  dd_relationships :: "relationship_description list"
  dd_root :: "string option"

section \<open>The platform: pandas, \<^verbatim>\<open>os.path\<close> and \<^verbatim>\<open>json\<close>\<close>

text \<open>
  The storage engines, the JSON codec, \<^verbatim>\<open>os.path.abspath\<close>, Python's \<^verbatim>\<open>str\<close> on a cell and
  the conversion of a value to a dtype are library code. They are parameters of the model: a
  writer turns a table, the file name and its keyword arguments into the bytes \<open>'b\<close> of the
  file, a reader turns such bytes back; each may raise. \<open>dtype_exists\<close> tells whether pandas
  understands a dtype name, \<open>cell_astype\<close> converts one value.
\<close>

record 'b platform =
  abspath :: "string \<Rightarrow> string"
  py_str :: "cell \<Rightarrow> string"
  dtype_exists :: "string \<Rightarrow> bool"
  cell_astype :: "string \<Rightarrow> cell \<Rightarrow> error + cell"
  to_csv :: "dataframe \<Rightarrow> string \<Rightarrow> kwargs \<Rightarrow> error + 'b"
  to_parquet :: "dataframe \<Rightarrow> string \<Rightarrow> kwargs \<Rightarrow> error + 'b"
  to_pickle :: "dataframe \<Rightarrow> string \<Rightarrow> kwargs \<Rightarrow> error + 'b"
  read_csv :: "'b \<Rightarrow> string \<Rightarrow> kwargs \<Rightarrow> error + dataframe"
  read_parquet :: "'b \<Rightarrow> string \<Rightarrow> kwargs \<Rightarrow> error + dataframe"
  read_pickle :: "'b \<Rightarrow> string \<Rightarrow> kwargs \<Rightarrow> error + dataframe"
  json_dump :: "data_description \<Rightarrow> error + 'b"
  json_load :: "'b \<Rightarrow> error + data_description"

text \<open>\<^verbatim>\<open>os.path.join(a, b)\<close> and \<^verbatim>\<open>os.path.dirname(p)\<close> of \<^verbatim>\<open>posixpath\<close>.\<close>

definition path_join :: "string \<Rightarrow> string \<Rightarrow> string" where
  "path_join a b =
     (if b \<noteq> [] \<and> hd b = CHR ''/'' then b
      else if a = [] \<or> last a = CHR ''/'' then a @ b
      else a @ ''/'' @ b)"

definition dirname :: "string \<Rightarrow> string" where
  "dirname p =
     (let head = rev (dropWhile (\<lambda>c. c \<noteq> CHR ''/'') (rev p))
      in if head \<noteq> [] \<and> \<not> list_all (\<lambda>c. c = CHR ''/'') head
         then rev (dropWhile (\<lambda>c. c = CHR ''/'') (rev head))
         else head)"

subsection \<open>The file system\<close>

text \<open>
  The file system maps an absolute path to a directory or to a file with its bytes.
  \<open>in_tree p q\<close>: \<open>q\<close> is \<open>p\<close> or lies in the tree below \<open>p\<close>. Creating a directory does not
  look at its ancestors; symbolic links are not modelled.
\<close>

datatype 'b node = Directory | File 'b

type_synonym 'b filesystem = "string \<Rightarrow> 'b node option"

definition path_exists :: "'b filesystem \<Rightarrow> string \<Rightarrow> bool" where
  "path_exists fs p = (fs p \<noteq> None)"

definition in_tree :: "string \<Rightarrow> string \<Rightarrow> bool" where
  "in_tree p q = (q = p \<or> (p \<noteq> [] \<and> prefix (if last p = CHR ''/'' then p else p @ ''/'') q))"

text \<open>
  \<^verbatim>\<open>shutil.rmtree(p)\<close>: removes the directory \<open>p\<close> and everything below it; on a path that is
  no directory it raises.
\<close>

definition remove_tree :: "string \<Rightarrow> 'b filesystem \<Rightarrow> 'b filesystem" where
  "remove_tree p fs = (\<lambda>q. if in_tree p q then None else fs q)"

definition rmtree :: "string \<Rightarrow> 'b filesystem \<Rightarrow> error + 'b filesystem" where
  "rmtree p fs =
     (case fs p of
        None \<Rightarrow> Inl (FileNotFoundError p)
      | Some (File b) \<Rightarrow> Inl (NotADirectoryError p)
      | Some Directory \<Rightarrow> Inr (remove_tree p fs))"

text \<open>\<^verbatim>\<open>os.makedirs(p)\<close> with the default \<^verbatim>\<open>exist_ok=False\<close>.\<close>

definition makedirs :: "string \<Rightarrow> 'b filesystem \<Rightarrow> error + 'b filesystem" where
  "makedirs p fs = (if path_exists fs p then Inl (FileExistsError p) else Inr (fs(p \<mapsto> Directory)))"

text \<open>Writing a whole file (\<^verbatim>\<open>open(file, 'w')\<close> and the writers of pandas) and reading one.\<close>

definition write_file :: "string \<Rightarrow> 'b \<Rightarrow> 'b filesystem \<Rightarrow> error + 'b filesystem" where
  "write_file file b fs =
     (case fs file of
        Some Directory \<Rightarrow> Inl (IsADirectoryError file)
      | _ \<Rightarrow> (if fs (dirname file) = Some Directory then Inr (fs(file \<mapsto> File b))
              else Inl (FileNotFoundError file)))"

definition read_file :: "string \<Rightarrow> 'b filesystem \<Rightarrow> error + 'b" where
  "read_file file fs =
     (case fs file of
        None \<Rightarrow> Inl (FileNotFoundError file)
      | Some Directory \<Rightarrow> Inl (IsADirectoryError file)
      | Some (File b) \<Rightarrow> Inr b)"

subsection \<open>Operations of pandas on tables\<close>

text \<open>
  \<^verbatim>\<open>Series.astype(dtype)\<close> on the cells of a column: the values are converted one by one.
\<close>

fun cells_astype :: "'b platform \<Rightarrow> string \<Rightarrow> cell list \<Rightarrow> error + cell list" where
  "cells_astype P t [] = Inr []"
| "cells_astype P t (c # cs) =
     (case cell_astype P t c of
        Inl e \<Rightarrow> Inl e
      | Inr c' \<Rightarrow> (case cells_astype P t cs of Inl e \<Rightarrow> Inl e | Inr cs' \<Rightarrow> Inr (c' # cs')))"

definition series_astype :: "'b platform \<Rightarrow> string \<Rightarrow> cell list \<Rightarrow> error + cell list" where
  "series_astype P t cells =
     (if dtype_exists P t then cells_astype P t cells
      else Inl (TypeError (''data type \"'' @ t @ ''\" not understood'')))"

text \<open>
  \<^verbatim>\<open>df.astype(dtypes)\<close> with a dict: a key that is no column label raises \<^verbatim>\<open>KeyError\<close>;
  every column named in the dict is converted and carries the requested dtype, the others are
  kept.
\<close>

fun astype_columns :: "'b platform \<Rightarrow> (string \<times> string) list \<Rightarrow> dataframe \<Rightarrow> error + dataframe" where
  "astype_columns P dtypes [] = Inr []"
| "astype_columns P dtypes (c # cs) =
     (case (case map_of dtypes (col_name c) of
              None \<Rightarrow> Inr c
            | Some t \<Rightarrow> (case series_astype P t (col_cells c) of
                          Inl e \<Rightarrow> Inl e
                        | Inr cells \<Rightarrow> Inr (c\<lparr>col_dtype := t, col_cells := cells\<rparr>))) of
        Inl e \<Rightarrow> Inl e
      | Inr c' \<Rightarrow> (case astype_columns P dtypes cs of Inl e \<Rightarrow> Inl e | Inr cs' \<Rightarrow> Inr (c' # cs')))"

definition astype :: "'b platform \<Rightarrow> (string \<times> string) list \<Rightarrow> dataframe \<Rightarrow> error + dataframe" where
  "astype P dtypes df =
     (if \<exists>k \<in> set (map fst dtypes). k \<notin> set (map col_name df)
      then Inl (KeyError ''Only a column name can be used for the key in a dtype mappings argument.'')
      else astype_columns P dtypes df)"

text \<open>
  \<^verbatim>\<open>columns = df.select_dtypes('object').columns; df[columns] = df[columns].astype('unicode')\<close>:
  every cell of a column of dtype \<^verbatim>\<open>object\<close> becomes its text; a cell that is text already is
  kept.
\<close>

definition cell_astype_unicode :: "'b platform \<Rightarrow> cell \<Rightarrow> cell" where
  "cell_astype_unicode P c = (case c of CText s \<Rightarrow> CText s | _ \<Rightarrow> CText (py_str P c))"

definition object_columns_astype_unicode :: "'b platform \<Rightarrow> dataframe \<Rightarrow> dataframe" where
  "object_columns_astype_unicode P df =
     map (\<lambda>c. if col_dtype c = ''object''
               then c\<lparr>col_cells := map (cell_astype_unicode P) (col_cells c)\<rparr> else c) df"

text \<open>\<^verbatim>\<open>{key: kwargs[key] for key in params if key in kwargs}\<close>.\<close>

definition kwargs_subset :: "string list \<Rightarrow> kwargs \<Rightarrow> kwargs" where
  "kwargs_subset params kwargs =
     concat (map (\<lambda>key. case map_of kwargs key of None \<Rightarrow> [] | Some v \<Rightarrow> [(key, v)]) params)"

text \<open>A dict built from key-value pairs in order: a repeated key keeps its place and takes the later value.\<close>

definition py_dict :: "('k \<times> 'v) list \<Rightarrow> ('k \<times> 'v) list" where
  "py_dict kvs = fold (\<lambda>kv d. AList.update (fst kv) (snd kv) d) kvs []"

section \<open>Entities, relationships and entity sets\<close>

text \<open>
  Modelled from the spec: the classes \<^verbatim>\<open>Entity\<close>, \<^verbatim>\<open>EntitySet\<close>, \<^verbatim>\<open>Relationship\<close> and \<^verbatim>\<open>Variable\<close>
  are not part of the serialization module. An entity has an identifier, its variables in
  order, an index, an optional time index, secondary time indexes, an optional last time index
  and its table; a variable refers to its entity by identifier; a relationship is a parent
  and a child variable; a collection holds entities and relationships.
\<close>

record entity =
  e_id :: string
  e_df :: dataframe
  e_index :: "string option"
  e_time_index :: "string option"
  e_secondary_time_index :: "json option"
  e_last_time_index :: "cell list option"
  e_variables :: "string variable_instance list"

record relationship =
  parent_variable :: "string variable_instance"
  child_variable :: "string variable_instance"

record entityset =
  es_entities :: "entity list"
  es_relationships :: "relationship list"

text \<open>
  Modelled from the spec: \<^verbatim>\<open>Variable.to_data_description\<close> is missing. It emits
  \<^verbatim>\<open>{type: tag}\<close> when the variable has no construction options and
  \<^verbatim>\<open>{type: {value: tag, ...options}}\<close> when it has. A class whose tag is \<^verbatim>\<open>None\<close> is written
  in the object form with a \<^verbatim>\<open>null\<close> value.
\<close>

definition variable_to_data_description :: "string variable_instance \<Rightarrow> variable_description" where
  "variable_to_data_description v =
     \<lparr>vd_id = vi_id v,
      vd_type = (case type_string (vi_class v) of
                   Some tag \<Rightarrow> (if vi_options v = [] then TypeStr tag
                                else TypeObj ((''value'', JStr tag) # vi_options v))
                 | None \<Rightarrow> TypeObj ((''value'', JNull) # vi_options v)),
      vd_interesting_values = vi_interesting_values v\<rparr>"

text \<open>\<^verbatim>\<open>to_entity_description(entity)\<close>: the dtypes of the columns that are variables, in column order.\<close>

definition to_entity_description :: "entity \<Rightarrow> entity_description" where
  "to_entity_description entity =
     (let index = (\<lambda>c. col_name c \<in> set (map vi_id (e_variables entity)));
          dtypes = py_dict (map (\<lambda>c. (col_name c, col_dtype c)) (filter index (e_df entity)))
      in \<lparr>ed_id = e_id entity,
          ed_index = e_index entity,
          ed_time_index = e_time_index entity,
          ed_secondary_time_index = e_secondary_time_index entity,
          ed_last_time_index = (e_last_time_index entity \<noteq> None),
          ed_variables = map variable_to_data_description (e_variables entity),
          ed_loading_info = \<lparr>li_location = None, li_type = None, li_params = Some [],
                             li_dtypes = dtypes\<rparr>\<rparr>)"

text \<open>\<^verbatim>\<open>to_relationship_description(relationship)\<close>.\<close>

definition to_relationship_description :: "relationship \<Rightarrow> relationship_description" where
  "to_relationship_description relationship =
     \<lparr>rd_parent = (vi_entity (parent_variable relationship), vi_id (parent_variable relationship)),
      rd_child = (vi_entity (child_variable relationship), vi_id (child_variable relationship))\<rparr>"

text \<open>
  Modelled from the spec: \<^verbatim>\<open>EntitySet.to_data_description\<close> is missing. The manifest maps
  each entity identifier to its fragment and lists the relationship fragments.
\<close>

definition to_data_description :: "entityset \<Rightarrow> data_description" where
  "to_data_description es =
     \<lparr>dd_entities = py_dict (map (\<lambda>e. (e_id e, to_entity_description e)) (es_entities es)),
      dd_relationships = map to_relationship_description (es_relationships es),
      dd_root = None\<rparr>"

section \<open>Writing\<close>

definition FORMATS :: "string list" where
  "FORMATS = [''csv'', ''pickle'', ''parquet'']"

text \<open>\<^verbatim>\<open>ValueError('must be one of the following formats: {}'.format(', '.join(FORMATS)))\<close>.\<close>

definition format_error :: error where
  "format_error = ValueError (''must be one of the following formats: '' @ str_join '', '' FORMATS)"

text \<open>What \<^verbatim>\<open>write_entity_data\<close> returns: \<^verbatim>\<open>{'location': location, 'type': format, 'params': kwargs}\<close>.\<close>

record written_info =
  wi_location :: string
  wi_type :: string
  wi_params :: kwargs

text \<open>A writer of pandas called on a file name: the bytes it produces become the file.\<close>

definition write_table :: "(error + 'b) \<Rightarrow> string \<Rightarrow> 'b filesystem \<Rightarrow> error + 'b filesystem" where
  "write_table encoded file fs = (case encoded of Inl e \<Rightarrow> Inl e | Inr b \<Rightarrow> write_file file b fs)"

text \<open>
  \<^verbatim>\<open>write_entity_data(entity, path, format='csv', **kwargs)\<close>. The result comes with the entity
  and the file system as the call leaves them: the parquet branch assigns to \<^verbatim>\<open>entity.df\<close>.
\<close>

definition write_entity_data ::
  "'b platform \<Rightarrow> entity \<Rightarrow> string \<Rightarrow> string \<Rightarrow> kwargs \<Rightarrow> 'b filesystem
     \<Rightarrow> (error + written_info) \<times> entity \<times> 'b filesystem" where
  "write_entity_data P entity path format0 kwargs fs =
     (let format = lower format0;
          basename0 = str_join ''.'' [e_id entity, format]
      in case (case map_of kwargs ''compression'' of
                 None \<Rightarrow> Inr basename0
               | Some (JStr s) \<Rightarrow> Inr (basename0 @ ''.'' @ s)
               | Some other \<Rightarrow> Inl (TypeError ''can only concatenate str to str'')) of
           Inl e \<Rightarrow> (Inl e, entity, fs)
         | Inr basename \<Rightarrow>
             (let location = path_join ''data'' basename;
                  file = path_join path location;
                  result = \<lparr>wi_location = location, wi_type = format, wi_params = kwargs\<rparr>
              in if format = ''csv'' then
                   (let params = [''index'', ''encoding''];
                        kept = kwargs_subset params kwargs
                    in case write_table (to_csv P (e_df entity) file kept) file fs of
                         Inl e \<Rightarrow> (Inl e, entity, fs)
                       | Inr fs' \<Rightarrow> (Inr result, entity, fs'))
                 else if format = ''parquet'' then
                   (let entity' = entity\<lparr>e_df := object_columns_astype_unicode P (e_df entity)\<rparr>
                    in case write_table (to_parquet P (e_df entity') file kwargs) file fs of
                         Inl e \<Rightarrow> (Inl e, entity', fs)
                       | Inr fs' \<Rightarrow> (Inr result, entity', fs'))
                 else if format = ''pickle'' then
                   (case write_table (to_pickle P (e_df entity) file kwargs) file fs of
                      Inl e \<Rightarrow> (Inl e, entity, fs)
                    | Inr fs' \<Rightarrow> (Inr result, entity, fs'))
                 else (Inl format_error, entity, fs)))"

text \<open>
  The call \<^verbatim>\<open>write_entity_data(entity, path, **kwargs)\<close> of \<^verbatim>\<open>write_data_description\<close>: a
  \<^verbatim>\<open>format\<close> among the keyword arguments binds the parameter \<^verbatim>\<open>format\<close>, which otherwise is
  \<^verbatim>\<open>'csv'\<close>; a keyword \<^verbatim>\<open>entity\<close> collides with the positional argument.
\<close>

definition call_write_entity_data ::
  "'b platform \<Rightarrow> entity \<Rightarrow> string \<Rightarrow> kwargs \<Rightarrow> 'b filesystem
     \<Rightarrow> (error + written_info) \<times> entity \<times> 'b filesystem" where
  "call_write_entity_data P entity path kwargs fs =
     (if map_of kwargs ''entity'' \<noteq> None
      then (Inl (TypeError ''got multiple values for argument 'entity' ''), entity, fs)
      else (case map_of kwargs ''format'' of
              None \<Rightarrow> write_entity_data P entity path ''csv'' kwargs fs
            | Some (JStr f) \<Rightarrow> write_entity_data P entity path f (AList.delete ''format'' kwargs) fs
            | Some other \<Rightarrow> (Inl (AttributeError ''lower''), entity, fs)))"

text \<open>\<^verbatim>\<open>description['entities'][entity.id]['loading_info'].update(loading_info)\<close>.\<close>

definition update_loading_info :: "written_info \<Rightarrow> entity_description \<Rightarrow> entity_description" where
  "update_loading_info info ed =
     ed\<lparr>ed_loading_info := (ed_loading_info ed)
          \<lparr>li_location := Some (wi_location info), li_type := Some (wi_type info),
           li_params := Some (wi_params info)\<rparr>\<rparr>"

text \<open>
  The loop \<^verbatim>\<open>for entity in entityset.entities\<close> of \<^verbatim>\<open>write_data_description\<close>; it stops at
  the first exception, with the entities and the file system as they are then.
\<close>

fun write_entities ::
  "'b platform \<Rightarrow> string \<Rightarrow> kwargs \<Rightarrow> entity list \<Rightarrow> data_description \<Rightarrow> 'b filesystem
     \<Rightarrow> (error + data_description) \<times> entity list \<times> 'b filesystem" where
  "write_entities P path kwargs [] description fs = (Inr description, [], fs)"
| "write_entities P path kwargs (entity # entities) description fs =
     (case call_write_entity_data P entity path kwargs fs of
        (Inl e, entity', fs') \<Rightarrow> (Inl e, entity' # entities, fs')
      | (Inr loading_info, entity', fs') \<Rightarrow>
          (case map_of (dd_entities description) (e_id entity') of
             None \<Rightarrow> (Inl (KeyError (e_id entity')), entity' # entities, fs')
           | Some ed \<Rightarrow>
               (case write_entities P path kwargs entities
                       (description\<lparr>dd_entities :=
                          AList.update (e_id entity') (update_loading_info loading_info ed)
                            (dd_entities description)\<rparr>) fs' of
                  (r, entities', fs'') \<Rightarrow> (r, entity' # entities', fs''))))"

text \<open>
  \<^verbatim>\<open>write_data_description(entityset, path, **kwargs)\<close>, returning what it raised (or nothing)
  with the entity set and the file system as the call leaves them.
\<close>

definition write_data_description ::
  "'b platform \<Rightarrow> entityset \<Rightarrow> string \<Rightarrow> kwargs \<Rightarrow> 'b filesystem
     \<Rightarrow> (error + unit) \<times> entityset \<times> 'b filesystem" where
  "write_data_description P es path0 kwargs fs =
     (let path = abspath P path0
      in case (if path_exists fs path then rmtree path fs else Inr fs) of
           Inl e \<Rightarrow> (Inl e, es, fs)
         | Inr fs1 \<Rightarrow>
             (case makedirs path fs1 of
                Inl e \<Rightarrow> (Inl e, es, fs1)
              | Inr fs2 \<Rightarrow>
                  (case makedirs (path_join path ''data'') fs2 of
                     Inl e \<Rightarrow> (Inl e, es, fs2)
                   | Inr fs3 \<Rightarrow>
                       (case write_entities P path kwargs (es_entities es) (to_data_description es) fs3 of
                          (Inl e, entities', fs4) \<Rightarrow> (Inl e, es\<lparr>es_entities := entities'\<rparr>, fs4)
                        | (Inr description, entities', fs4) \<Rightarrow>
                            (let file = path_join path ''data_description.json''
                             in case write_table (json_dump P description) file fs4 of
                                  Inl e \<Rightarrow> (Inl e, es\<lparr>es_entities := entities'\<rparr>, fs4)
                                | Inr fs5 \<Rightarrow> (Inr (), es\<lparr>es_entities := entities'\<rparr>, fs5))))))"

section \<open>Reading\<close>

text \<open>A reader of pandas called on a file name: it decodes the bytes of the file.\<close>

definition read_table ::
  "('b \<Rightarrow> string \<Rightarrow> kwargs \<Rightarrow> error + dataframe) \<Rightarrow> string \<Rightarrow> kwargs \<Rightarrow> 'b filesystem
     \<Rightarrow> error + dataframe" where
  "read_table reader file kept fs =
     (case read_file file fs of Inl e \<Rightarrow> Inl e | Inr b \<Rightarrow> reader b file kept)"

text \<open>\<^verbatim>\<open>empty_dataframe(description)\<close>: \<^verbatim>\<open>pd.DataFrame(columns=columns).astype(dtypes)\<close>.\<close>

definition empty_dataframe :: "'b platform \<Rightarrow> entity_description \<Rightarrow> error + dataframe" where
  "empty_dataframe P description =
     (let columns = map vd_id (ed_variables description);
          dtypes = li_dtypes (ed_loading_info description)
      in astype P dtypes
           (map (\<lambda>name. \<lparr>col_name = name, col_dtype = ''object'', col_cells = []\<rparr>) columns))"

text \<open>\<^verbatim>\<open>read_entity_data(description, path)\<close>.\<close>

definition read_entity_data ::
  "'b platform \<Rightarrow> entity_description \<Rightarrow> string \<Rightarrow> 'b filesystem \<Rightarrow> error + dataframe" where
  "read_entity_data P description path fs =
     (case li_location (ed_loading_info description) of
        None \<Rightarrow> Inl (KeyError ''location'')
      | Some location \<Rightarrow>
          (let file = path_join path location;
               kwargs = (case li_params (ed_loading_info description) of None \<Rightarrow> [] | Some k \<Rightarrow> k)
           in case li_type (ed_loading_info description) of
                None \<Rightarrow> Inl (KeyError ''type'')
              | Some format \<Rightarrow>
                  (case (if format = ''csv'' then
                           read_table (read_csv P) file
                             (kwargs_subset [''compression'', ''engine'', ''encoding''] kwargs) fs
                         else if format = ''parquet'' then
                           read_table (read_parquet P) file
                             (kwargs_subset [''engine'', ''columns''] kwargs) fs
                         else if format = ''pickle'' then
                           read_table (read_pickle P) file
                             (kwargs_subset [''compression''] kwargs) fs
                         else Inl format_error) of
                     Inl e \<Rightarrow> Inl e
                   | Inr dataframe \<Rightarrow> astype P (li_dtypes (ed_loading_info description)) dataframe)))"

text \<open>
  The dict comprehension
  \<^verbatim>\<open>{variable['id']: from_variable_description(variable) for variable in description['variables']}\<close>:
  the pairs in order, with the variable descriptions as the calls leave them.
\<close>

fun variable_types_of ::
  "(string option \<rightharpoonup> variable_type) \<Rightarrow> variable_description list
     \<Rightarrow> (error + (string \<times> string variable) list) \<times> variable_description list" where
  "variable_types_of reg [] = (Inr [], [])"
| "variable_types_of reg (v # vs) =
     (case from_variable_description reg v None of
        (Inl e, v') \<Rightarrow> (Inl e, v' # vs)
      | (Inr x, v') \<Rightarrow>
          (case variable_types_of reg vs of
             (Inl e, vs') \<Rightarrow> (Inl e, v' # vs')
           | (Inr xs, vs') \<Rightarrow> (Inr ((vd_id v', x) # xs), v' # vs')))"

text \<open>
  Modelled from the spec: \<^verbatim>\<open>EntitySet.entity_from_dataframe\<close> is missing. It registers an
  entity with the given identifier, table, index, time index and secondary time index, and
  one variable of the given class for each entry of \<^verbatim>\<open>variable_types\<close>; an entry that is no
  class cannot be instantiated. An entity registered under an identifier already in the
  collection takes the place of the older one.
\<close>

fun make_variables :: "string \<Rightarrow> (string \<times> string variable) list \<Rightarrow> error + string variable_instance list" where
  "make_variables entity_id [] = Inr []"
| "make_variables entity_id ((name, VariableClass (Some cls)) # rest) =
     (case make_variables entity_id rest of
        Inl e \<Rightarrow> Inl e
      | Inr vs \<Rightarrow> Inr (\<lparr>vi_class = cls, vi_id = name, vi_entity = entity_id, vi_options = [],
                        vi_interesting_values = JList []\<rparr> # vs))"
| "make_variables entity_id ((name, other) # rest) = Inl (TypeError ''object is not callable'')"

definition register_entity :: "entity \<Rightarrow> entity list \<Rightarrow> entity list" where
  "register_entity entity entities =
     (if e_id entity \<in> set (map e_id entities)
      then map (\<lambda>e. if e_id e = e_id entity then entity else e) entities
      else entities @ [entity])"

definition entity_from_dataframe ::
  "entityset \<Rightarrow> string \<Rightarrow> dataframe \<Rightarrow> string option \<Rightarrow> string option \<Rightarrow> json option
     \<Rightarrow> (string \<times> string variable) list \<Rightarrow> error + entityset" where
  "entity_from_dataframe es entity_id dataframe index time_index secondary_time_index variable_types =
     (case make_variables entity_id variable_types of
        Inl e \<Rightarrow> Inl e
      | Inr variables \<Rightarrow>
          Inr (es\<lparr>es_entities := register_entity
                 \<lparr>e_id = entity_id, e_df = dataframe, e_index = index, e_time_index = time_index,
                  e_secondary_time_index = secondary_time_index, e_last_time_index = None,
                  e_variables = variables\<rparr> (es_entities es)\<rparr>))"

text \<open>
  \<^verbatim>\<open>from_entity_description(description, entityset, path=None)\<close>, returning the entity set (or
  what was raised) and the description as the call leaves it.
\<close>

definition from_entity_description ::
  "'b platform \<Rightarrow> (string option \<rightharpoonup> variable_type) \<Rightarrow> entity_description \<Rightarrow> entityset
     \<Rightarrow> string option \<Rightarrow> 'b filesystem \<Rightarrow> (error + entityset) \<times> entity_description" where
  "from_entity_description P reg description es path fs =
     (case (case path of
              Some p \<Rightarrow> read_entity_data P description p fs
            | None \<Rightarrow> empty_dataframe P description) of
        Inl e \<Rightarrow> (Inl e, description)
      | Inr dataframe \<Rightarrow>
          (case variable_types_of reg (ed_variables description) of
             (Inl e, variables') \<Rightarrow> (Inl e, description\<lparr>ed_variables := variables'\<rparr>)
           | (Inr variable_types, variables') \<Rightarrow>
               (entity_from_dataframe es (ed_id description) dataframe (ed_index description)
                  (ed_time_index description) (ed_secondary_time_index description)
                  (py_dict variable_types),
                description\<lparr>ed_variables := variables'\<rparr>)))"

text \<open>
  \<^verbatim>\<open>from_relationship_description(description, entityset)\<close>. Modelled from the spec:
  \<^verbatim>\<open>entityset[entity][variable]\<close> looks the entity up by identifier and the variable in it, and
  fails if either is absent.
\<close>

definition lookup_variable :: "entityset \<Rightarrow> string \<times> string \<Rightarrow> error + string variable_instance" where
  "lookup_variable es endpoint =
     (case find (\<lambda>e. e_id e = fst endpoint) (es_entities es) of
        None \<Rightarrow> Inl (KeyError (fst endpoint))
      | Some e \<Rightarrow>
          (case find (\<lambda>v. vi_id v = snd endpoint) (e_variables e) of
             None \<Rightarrow> Inl (KeyError (snd endpoint))
           | Some v \<Rightarrow> Inr v))"

definition from_relationship_description :: "relationship_description \<Rightarrow> entityset \<Rightarrow> error + relationship" where
  "from_relationship_description description es =
     (case lookup_variable es (rd_parent description) of
        Inl e \<Rightarrow> Inl e
      | Inr parent \<Rightarrow>
          (case lookup_variable es (rd_child description) of
             Inl e \<Rightarrow> Inl e
           | Inr child \<Rightarrow> Inr \<lparr>parent_variable = parent, child_variable = child\<rparr>))"

text \<open>\<^verbatim>\<open>read_data_description(path)\<close>.\<close>

definition read_data_description :: "'b platform \<Rightarrow> string \<Rightarrow> 'b filesystem \<Rightarrow> error + data_description" where
  "read_data_description P path0 fs =
     (let path = abspath P path0
      in if \<not> path_exists fs path
         then Inl (AssertionError (''\"'' @ path @ ''\" does not exist''))
         else (let file = path_join path ''data_description.json''
               in case read_file file fs of
                    Inl e \<Rightarrow> Inl e
                  | Inr b \<Rightarrow>
                      (case json_load P b of
                         Inl e \<Rightarrow> Inl e
                       | Inr description \<Rightarrow> Inr (description\<lparr>dd_root := Some path\<rparr>))))"

section \<open>Notions of the specification\<close>

text \<open>The options the specification lists for the reader of each format, and that reader.\<close>

definition whitelisted_options :: "string \<Rightarrow> string list" where
  "whitelisted_options format =
     (if format = ''csv'' then [''compression'', ''engine'', ''encoding'']
      else if format = ''parquet'' then [''engine'', ''columns'']
      else [''compression''])"

definition format_reader :: "'b platform \<Rightarrow> string \<Rightarrow> 'b \<Rightarrow> string \<Rightarrow> kwargs \<Rightarrow> error + dataframe" where
  "format_reader P format =
     (if format = ''csv'' then read_csv P else if format = ''parquet'' then read_parquet P else read_pickle P)"

text \<open>The tag a variable fragment carries, and whether it is a string.\<close>

definition fragment_tag :: "variable_description \<Rightarrow> json option" where
  "fragment_tag v = (case vd_type v of TypeStr s \<Rightarrow> Some (JStr s) | TypeObj opts \<Rightarrow> map_of opts ''value'')"

definition has_string_tag :: "variable_description \<Rightarrow> bool" where
  "has_string_tag v = (case fragment_tag v of Some (JStr s) \<Rightarrow> True | _ \<Rightarrow> False)"


text \<open>
  Modelled from the spec: the caller that assembles a collection from a manifest is not in the
  serialization module. The manifest is read, every entity fragment is passed to
  \<^verbatim>\<open>from_entity_description\<close> with the recorded root, in the order of the manifest, starting
  from an empty collection; when all entities are registered, every relationship fragment is
  resolved with \<^verbatim>\<open>from_relationship_description\<close> and added to the collection.
\<close>

fun load_entities ::
  "'b platform \<Rightarrow> (string option \<rightharpoonup> variable_type) \<Rightarrow> entity_description list \<Rightarrow> entityset
     \<Rightarrow> string \<Rightarrow> 'b filesystem \<Rightarrow> error + entityset" where
  "load_entities P reg [] es root fs = Inr es"
| "load_entities P reg (d # ds) es root fs =
     (case fst (from_entity_description P reg d es (Some root) fs) of
        Inl e \<Rightarrow> Inl e
      | Inr es' \<Rightarrow> load_entities P reg ds es' root fs)"

fun load_relationships :: "relationship_description list \<Rightarrow> entityset \<Rightarrow> error + relationship list" where
  "load_relationships [] es = Inr []"
| "load_relationships (d # ds) es =
     (case from_relationship_description d es of
        Inl e \<Rightarrow> Inl e
      | Inr r \<Rightarrow> (case load_relationships ds es of Inl e \<Rightarrow> Inl e | Inr rs \<Rightarrow> Inr (r # rs)))"

definition read_entityset ::
  "'b platform \<Rightarrow> (string option \<rightharpoonup> variable_type) \<Rightarrow> string \<Rightarrow> 'b filesystem \<Rightarrow> error + entityset" where
  "read_entityset P reg path fs =
     (case read_data_description P path fs of
        Inl e \<Rightarrow> Inl e
      | Inr description \<Rightarrow>
          (case dd_root description of
             None \<Rightarrow> Inl (KeyError ''root'')
           | Some root \<Rightarrow>
               (case load_entities P reg (map snd (dd_entities description))
                       \<lparr>es_entities = [], es_relationships = []\<rparr> root fs of
                  Inl e \<Rightarrow> Inl e
                | Inr es \<Rightarrow>
                    (case load_relationships (dd_relationships description) es of
                       Inl e \<Rightarrow> Inl e
                     | Inr rs \<Rightarrow> Inr (es\<lparr>es_relationships := rs\<rparr>)))))"

text \<open>
  What the round trip preserves, in the words of the specification: the entity identifiers;
  for each entity the variable identifiers, their type tags and the table restricted to the
  columns declared as variables; the endpoint pairs of the relationships.
\<close>

definition declared_columns :: "entity \<Rightarrow> dataframe" where
  "declared_columns e = filter (\<lambda>c. col_name c \<in> set (map vi_id (e_variables e))) (e_df e)"

definition same_entity :: "entity \<Rightarrow> entity \<Rightarrow> bool" where
  "same_entity e' e =
     (e_id e' = e_id e
      \<and> map vi_id (e_variables e') = map vi_id (e_variables e)
      \<and> map (\<lambda>v. type_string (vi_class v)) (e_variables e') = map (\<lambda>v. type_string (vi_class v)) (e_variables e)
      \<and> declared_columns e' = declared_columns e)"

definition same_collection :: "entityset \<Rightarrow> entityset \<Rightarrow> bool" where
  "same_collection es' es =
     (list_all2 same_entity (es_entities es') (es_entities es)
      \<and> map to_relationship_description (es_relationships es')
          = map to_relationship_description (es_relationships es))"

text \<open>
  The invariants of a collection: entity identifiers are unique (and, being file names, do
  not start with a slash); within an entity the variable identifiers are distinct and so are
  the column labels; the endpoints of a relationship are variables of entities of the
  collection.
\<close>

definition is_endpoint :: "entityset \<Rightarrow> string variable_instance \<Rightarrow> bool" where
  "is_endpoint es v =
     list_ex (\<lambda>e. e_id e = vi_entity v \<and> list_ex (\<lambda>w. vi_id w = vi_id v) (e_variables e)) (es_entities es)"

definition well_formed_collection :: "entityset \<Rightarrow> bool" where
  "well_formed_collection es =
     (distinct (map e_id (es_entities es))
      \<and> list_all (\<lambda>e. take 1 (e_id e) \<noteq> ''/''
                      \<and> distinct (map vi_id (e_variables e))
                      \<and> distinct (map col_name (e_df e))) (es_entities es)
      \<and> list_all (\<lambda>r. is_endpoint es (parent_variable r) \<and> is_endpoint es (child_variable r))
           (es_relationships es))"

text \<open>
  What the round trip needs of the platform. The format the tables are written in; the writer
  of a format; a table reads back if the reader of the format returns it from whatever the
  writer made of it; a column is kept by the re-cast if its dtype exists and converting a cell
  to it gives the cell; the object columns of a table hold text only.
\<close>

definition write_format :: "kwargs \<Rightarrow> string" where
  "write_format kwargs = (case map_of kwargs ''format'' of Some (JStr f) \<Rightarrow> lower f | _ \<Rightarrow> ''csv'')"

definition write_kwargs :: "kwargs \<Rightarrow> kwargs" where
  "write_kwargs kwargs =
     (case map_of kwargs ''format'' of Some (JStr f) \<Rightarrow> AList.delete ''format'' kwargs | _ \<Rightarrow> kwargs)"

text \<open>
  The file name convention: \<^verbatim>\<open><entityId>.<format>\<close>, with \<^verbatim>\<open>.<compressionTag>\<close> appended when
  a compression option is given, in the directory \<^verbatim>\<open>data\<close>.
\<close>

definition file_suffix :: "kwargs \<Rightarrow> string" where
  "file_suffix kwargs =
     ''.'' @ write_format kwargs
       @ (case map_of kwargs ''compression'' of Some (JStr s) \<Rightarrow> ''.'' @ s | _ \<Rightarrow> [])"

definition table_location :: "kwargs \<Rightarrow> entity \<Rightarrow> string" where
  "table_location kwargs e = path_join ''data'' (e_id e @ file_suffix kwargs)"

definition format_writer :: "'b platform \<Rightarrow> string \<Rightarrow> dataframe \<Rightarrow> string \<Rightarrow> kwargs \<Rightarrow> error + 'b" where
  "format_writer P format =
     (if format = ''csv'' then to_csv P else if format = ''parquet'' then to_parquet P else to_pickle P)"

definition writer_kwargs :: "string \<Rightarrow> kwargs \<Rightarrow> kwargs" where
  "writer_kwargs format kwargs = (if format = ''csv'' then kwargs_subset [''index'', ''encoding''] kwargs else kwargs)"

definition reads_back :: "'b platform \<Rightarrow> string \<Rightarrow> dataframe \<Rightarrow> bool" where
  "reads_back P format df =
     (\<forall>name kw kw' b. format_writer P format df name kw = Inr b \<longrightarrow> format_reader P format b name kw' = Inr df)"

definition recast_keeps :: "'b platform \<Rightarrow> column \<Rightarrow> bool" where
  "recast_keeps P c =
     (dtype_exists P (col_dtype c) \<and> list_all (\<lambda>x. cell_astype P (col_dtype c) x = Inr x) (col_cells c))"

definition object_cells_are_text :: "dataframe \<Rightarrow> bool" where
  "object_cells_are_text df =
     list_all (\<lambda>c. col_dtype c \<noteq> ''object''
                    \<or> list_all (\<lambda>x. case x of CText s \<Rightarrow> True | _ \<Rightarrow> False) (col_cells c)) df"

text \<open>
  The fragment of an entity in the manifest once its table is written, and the entity a reader
  registers from that fragment: the same identifier, indexes and table, and a fresh variable of
  the registered class for each variable.
\<close>

definition written_fragment :: "kwargs \<Rightarrow> entity \<Rightarrow> entity_description" where
  "written_fragment kwargs e =
     update_loading_info
       \<lparr>wi_location = table_location kwargs e, wi_type = write_format kwargs,
        wi_params = write_kwargs kwargs\<rparr> (to_entity_description e)"

definition written_manifest :: "kwargs \<Rightarrow> entityset \<Rightarrow> data_description" where
  "written_manifest kwargs es =
     \<lparr>dd_entities = map (\<lambda>e. (e_id e, written_fragment kwargs e)) (es_entities es),
      dd_relationships = map to_relationship_description (es_relationships es),
      dd_root = None\<rparr>"

definition reloaded_variable :: "(string option \<rightharpoonup> variable_type) \<Rightarrow> string \<Rightarrow> string variable_instance
    \<Rightarrow> string variable_instance" where
  "reloaded_variable reg entity_id v =
     \<lparr>vi_class = the (reg (type_string (vi_class v))), vi_id = vi_id v, vi_entity = entity_id,
      vi_options = [], vi_interesting_values = JList []\<rparr>"

definition reloaded :: "(string option \<rightharpoonup> variable_type) \<Rightarrow> entity \<Rightarrow> entity" where
  "reloaded reg e =
     \<lparr>e_id = e_id e, e_df = e_df e, e_index = e_index e, e_time_index = e_time_index e,
      e_secondary_time_index = e_secondary_time_index e, e_last_time_index = None,
      e_variables = map (reloaded_variable reg (e_id e)) (e_variables e)\<rparr>"

section \<open>An example platform and example inputs\<close>

text \<open>
  A platform whose writers keep the table as it is and whose readers give it back, with
  Python's \<^verbatim>\<open>str\<close> on integers, booleans, \<^verbatim>\<open>None\<close>, text without quotes or escapes, and
  tuples of these; an output directory; an entity with a tuple-valued column.
\<close>

datatype blob = TableBlob dataframe | JsonBlob data_description

function str_nat :: "nat \<Rightarrow> string" where
  "str_nat n = (if n < 10 then [char_of (48 + n)] else str_nat (n div 10) @ [char_of (48 + n mod 10)])"
  by pat_completeness auto
termination
  by (relation "measure id") auto

declare str_nat.simps [simp del]

definition str_int :: "int \<Rightarrow> string" where
  "str_int i = (if i < 0 then ''-'' @ str_nat (nat (- i)) else str_nat (nat i))"

fun cell_repr :: "cell \<Rightarrow> string" where
  "cell_repr CNone = ''None''"
| "cell_repr (CBool b) = (if b then ''True'' else ''False'')"
| "cell_repr (CInt i) = str_int i"
| "cell_repr (CText s) = [CHR 0x27] @ s @ [CHR 0x27]"
| "cell_repr (CTuple cs) =
     (case cs of
        [c] \<Rightarrow> ''('' @ cell_repr c @ '',)''
      | _ \<Rightarrow> ''('' @ str_join '', '' (map cell_repr cs) @ '')'')"

definition cell_str :: "cell \<Rightarrow> string" where
  "cell_str c = (case c of CText s \<Rightarrow> s | _ \<Rightarrow> cell_repr c)"


definition decode_table :: "blob \<Rightarrow> string \<Rightarrow> kwargs \<Rightarrow> error + dataframe" where
  "decode_table b file kw = (case b of TableBlob df \<Rightarrow> Inr df | JsonBlob d \<Rightarrow> Inl (EngineError ''not a table''))"

definition example_platform :: "blob platform" where
  "example_platform =
     \<lparr>abspath = (\<lambda>p. p),
      py_str = cell_str,
      dtype_exists = (\<lambda>t. True),
      cell_astype = (\<lambda>t c. Inr c),
      to_csv = (\<lambda>df file kw. Inr (TableBlob df)),
      to_parquet = (\<lambda>df file kw. Inr (TableBlob df)),
      to_pickle = (\<lambda>df file kw. Inr (TableBlob df)),
      read_csv = decode_table,
      read_parquet = decode_table,
      read_pickle = decode_table,
      json_dump = (\<lambda>d. Inr (JsonBlob d)),
      json_load = (\<lambda>b. case b of JsonBlob d \<Rightarrow> Inr d | TableBlob df \<Rightarrow> Inl (JSONDecodeError ''not a manifest''))\<rparr>"

definition example_fs :: "blob filesystem" where
  "example_fs = [''/out'' \<mapsto> Directory, ''/out/data'' \<mapsto> Directory]"

definition example_entity :: entity where
  "example_entity =
     \<lparr>e_id = ''customers'',
      e_df = [\<lparr>col_name = ''id'', col_dtype = ''int64'', col_cells = [CInt 1, CInt 2]\<rparr>,
              \<lparr>col_name = ''pair'', col_dtype = ''object'', col_cells = [CTuple [CInt 1, CInt 2], CText ''a'']\<rparr>],
      e_index = Some ''id'', e_time_index = None, e_secondary_time_index = Some (JObj []),
      e_last_time_index = None,
      e_variables = [\<lparr>vi_class = \<lparr>vt_name = ''Index'', type_string = Some ''index''\<rparr>, vi_id = ''id'',
                       vi_entity = ''customers'', vi_options = [], vi_interesting_values = JList []\<rparr>,
                     \<lparr>vi_class = \<lparr>vt_name = ''Variable'', type_string = None\<rparr>, vi_id = ''pair'',
                       vi_entity = ''customers'', vi_options = [], vi_interesting_values = JList []\<rparr>]\<rparr>"


text \<open>
  A manifest fragment for that entity as a reader may find it, with a tag no class is
  registered under, and a directory in which the stored table has a column whose dtype is not
  the recorded one.
\<close>

definition example_fragment :: entity_description where
  "example_fragment =
     \<lparr>ed_id = ''customers'', ed_index = Some ''id'', ed_time_index = None,
      ed_secondary_time_index = Some (JObj []), ed_last_time_index = False,
      ed_variables = [\<lparr>vd_id = ''id'', vd_type = TypeStr ''numeric'', vd_interesting_values = JList []\<rparr>,
                      \<lparr>vd_id = ''pair'', vd_type = TypeStr ''unheard_of'', vd_interesting_values = JList []\<rparr>],
      ed_loading_info =
        \<lparr>li_location = Some ''data/customers.csv'', li_type = Some ''csv'',
         li_params = Some [(''index'', JBool False), (''compression'', JStr ''gzip'')],
         li_dtypes = [(''id'', ''int64''), (''pair'', ''object'')]\<rparr>\<rparr>"

definition example_manifest :: data_description where
  "example_manifest =
     \<lparr>dd_entities = [(''customers'', example_fragment)], dd_relationships = [], dd_root = None\<rparr>"

definition example_stored_table :: dataframe where
  "example_stored_table =
     [\<lparr>col_name = ''id'', col_dtype = ''object'', col_cells = [CInt 1, CInt 2]\<rparr>,
      \<lparr>col_name = ''pair'', col_dtype = ''object'', col_cells = [CText ''(1, 2)'', CText ''a'']\<rparr>]"

definition example_written_fs :: "blob filesystem" where
  "example_written_fs =
     [''/out'' \<mapsto> Directory, ''/out/data'' \<mapsto> Directory,
      ''/out/data/customers.csv'' \<mapsto> File (TableBlob example_stored_table),
      ''/out/data_description.json'' \<mapsto> File (JsonBlob example_manifest)]"

text \<open>An entity set of that one entity, and a file system with an older output directory.\<close>

definition example_entityset :: entityset where
  "example_entityset = \<lparr>es_entities = [example_entity], es_relationships = []\<rparr>"

definition example_stale_fs :: "blob filesystem" where
  "example_stale_fs =
     [''/out'' \<mapsto> Directory, ''/out/old'' \<mapsto> Directory,
      ''/out/old/notes.csv'' \<mapsto> File (TableBlob []),
      ''/out/data'' \<mapsto> Directory,
      ''/out/data/stale.csv'' \<mapsto> File (TableBlob example_stored_table),
      ''/elsewhere'' \<mapsto> File (TableBlob [])]"

section \<open>An example registry\<close>

definition example_registry :: "string option \<rightharpoonup> variable_type" where
  "example_registry = VARIABLE_TYPES
     [HasTypeString \<lparr>vt_name = ''Numeric'', type_string = Some ''numeric''\<rparr>,
      NoTypeString,
      HasTypeString \<lparr>vt_name = ''Variable'', type_string = None\<rparr>]"

section \<open>Variable fragments\<close>

lemma example_registry_numeric:
  "example_registry (Some ''numeric'') = Some \<lparr>vt_name = ''Numeric'', type_string = Some ''numeric''\<rparr>"
  by (simp add: example_registry_def VARIABLE_TYPES_def)

lemma example_registry_None:
  "example_registry None = Some \<lparr>vt_name = ''Variable'', type_string = None\<rparr>"
  by (simp add: example_registry_def VARIABLE_TYPES_def)

lemma example_registry_other:
  "s \<noteq> ''numeric'' \<Longrightarrow> example_registry (Some s) = None"
  by (simp add: example_registry_def VARIABLE_TYPES_def)

text \<open>
  C5, type-field polymorphism. A type field that is a string is the tag, and the variable is
  constructed with no options. A type field that is an object gives its \<^verbatim>\<open>value\<close> entry as the
  tag, and the variable is constructed with exactly the other entries of the object, in their
  order. In both cases the class is the one the registry gives for the tag, and without an
  entity the class itself is returned.
\<close>

theorem type_field_polymorphism:
  "(vd_type d = TypeStr s \<and> registry_get reg (JStr s) = Inr (Some cls) \<longrightarrow>
      from_variable_description reg d (Some (ent::'e)) =
        (Inr (VariableInstance \<lparr>vi_class = cls, vi_id = vd_id d, vi_entity = ent, vi_options = [],
                                vi_interesting_values = vd_interesting_values d\<rparr>), d)
      \<and> fst (from_variable_description reg d (None :: 'e option)) = Inr (VariableClass (Some cls)))
   \<and> (vd_type d = TypeObj opts \<and> map_of opts ''value'' = Some tag \<and> registry_get reg tag = Inr (Some cls) \<longrightarrow>
      fst (from_variable_description reg d (Some ent)) =
        Inr (VariableInstance \<lparr>vi_class = cls, vi_id = vd_id d, vi_entity = ent,
                               vi_options = AList.delete ''value'' opts,
                               vi_interesting_values = vd_interesting_values d\<rparr>)
      \<and> fst (from_variable_description reg d (None :: 'e option)) = Inr (VariableClass (Some cls)))"
  by (simp add: from_variable_description_def)

text \<open>
  The fragments \<^verbatim>\<open>{type: "numeric"}\<close> and \<^verbatim>\<open>{type: {value: "numeric", option: 1}}\<close> both
  give the class registered under \<^verbatim>\<open>numeric\<close>; only the second carries \<^verbatim>\<open>option\<close>.
\<close>

theorem type_field_polymorphism_witness:
  "fst (from_variable_description example_registry
          \<lparr>vd_id = ''x'', vd_type = TypeStr ''numeric'', vd_interesting_values = JList []\<rparr> (Some ''e'')) =
     Inr (VariableInstance \<lparr>vi_class = \<lparr>vt_name = ''Numeric'', type_string = Some ''numeric''\<rparr>,
            vi_id = ''x'', vi_entity = ''e'', vi_options = [], vi_interesting_values = JList []\<rparr>)
   \<and> fst (from_variable_description example_registry
          \<lparr>vd_id = ''x'', vd_type = TypeObj [(''value'', JStr ''numeric''), (''option'', JInt 1)],
           vd_interesting_values = JList []\<rparr> (Some ''e'')) =
     Inr (VariableInstance \<lparr>vi_class = \<lparr>vt_name = ''Numeric'', type_string = Some ''numeric''\<rparr>,
            vi_id = ''x'', vi_entity = ''e'', vi_options = [(''option'', JInt 1)],
            vi_interesting_values = JList []\<rparr>)"
proof -
  let ?cls = "\<lparr>vt_name = ''Numeric'', type_string = Some ''numeric''\<rparr>"
  let ?d1 = "\<lparr>vd_id = ''x'', vd_type = TypeStr ''numeric'', vd_interesting_values = JList []\<rparr>"
  let ?opts = "[(''value'', JStr ''numeric''), (''option'', JInt 1)]"
  let ?d2 = "\<lparr>vd_id = ''x'', vd_type = TypeObj ?opts, vd_interesting_values = JList []\<rparr>"
  have r: "registry_get example_registry (JStr ''numeric'') = Inr (Some ?cls)"
    by (simp add: registry_get_def example_registry_numeric)
  have 1: "vd_type ?d1 = TypeStr ''numeric''" by simp
  have 2: "vd_type ?d2 = TypeObj ?opts \<and> map_of ?opts ''value'' = Some (JStr ''numeric'')" by simp
  from type_field_polymorphism [of ?d1 "''numeric''" example_registry ?cls "''e''" "[]" JNull] 1 r
  have a: "fst (from_variable_description example_registry ?d1 (Some ''e'')) =
       Inr (VariableInstance \<lparr>vi_class = ?cls, vi_id = ''x'', vi_entity = ''e'', vi_options = [],
            vi_interesting_values = JList []\<rparr>)" by simp
  from type_field_polymorphism [of ?d2 "''numeric''" example_registry ?cls "''e''" ?opts "JStr ''numeric''"] 2 r
  have b: "fst (from_variable_description example_registry ?d2 (Some ''e'')) =
       Inr (VariableInstance \<lparr>vi_class = ?cls, vi_id = ''x'', vi_entity = ''e'',
            vi_options = [(''option'', JInt 1)], vi_interesting_values = JList []\<rparr>)" by simp
  from a b show ?thesis by simp
qed

lemma from_variable_description_snd:
  "vd_type d = TypeObj opts \<Longrightarrow> map_of opts ''value'' = Some v \<Longrightarrow>
     snd (from_variable_description reg d ent) = d\<lparr>vd_type := TypeObj (AList.delete ''value'' opts)\<rparr>"
  by (auto simp add: from_variable_description_def split: option.splits sum.splits)

lemma delete_present_changes:
  assumes "map_of opts k = Some v"
  shows "AList.delete k opts \<noteq> opts"
proof
  assume "AList.delete k opts = opts"
  then have "map_of (AList.delete k opts) k = map_of opts k" by simp
  with assms show False by (simp add: AList.delete_conv')
qed

text \<open>
  C10, the fragment is changed by deserialization. For a fragment whose type field is an
  object, the object has no \<^verbatim>\<open>value\<close> entry after \<^verbatim>\<open>from_variable_description\<close>. If it had
  one (as every object-form type field of a manifest has), the entry has been removed from the
  caller's fragment, which therefore is not what it was, and a second call on the same
  fragment no longer finds a tag: it raises \<^verbatim>\<open>KeyError\<close>.
\<close>

theorem pop_mutates_fragment:
  assumes "vd_type d = TypeObj opts"
  shows "(\<exists>opts'. vd_type (snd (from_variable_description reg d ent)) = TypeObj opts'
            \<and> map_of opts' ''value'' = None)
       \<and> (map_of opts ''value'' \<noteq> None \<longrightarrow>
            vd_type (snd (from_variable_description reg d ent)) = TypeObj (AList.delete ''value'' opts)
          \<and> snd (from_variable_description reg d ent) \<noteq> d
          \<and> fst (from_variable_description reg (snd (from_variable_description reg d ent)) ent)
              = Inl (KeyError ''value''))"
proof (cases "map_of opts ''value''")
  case None
  with assms show ?thesis by (simp add: from_variable_description_def)
next
  case (Some v)
  let ?d' = "d\<lparr>vd_type := TypeObj (AList.delete ''value'' opts)\<rparr>"
  have after: "snd (from_variable_description reg d ent) = ?d'"
    using assms Some by (rule from_variable_description_snd)
  have changed: "?d' \<noteq> d"
  proof
    assume "?d' = d"
    then have "vd_type ?d' = vd_type d" by (rule arg_cong)
    with assms delete_present_changes [OF Some] show False by simp
  qed
  have again: "fst (from_variable_description reg ?d' ent) = Inl (KeyError ''value'')"
    by (simp add: from_variable_description_def AList.delete_conv')
  from after changed again Some show ?thesis by (simp add: AList.delete_conv')
qed

theorem pop_mutates_fragment_witness:
  "snd (from_variable_description example_registry
          \<lparr>vd_id = ''x'', vd_type = TypeObj [(''value'', JStr ''numeric''), (''option'', JInt 1)],
           vd_interesting_values = JList []\<rparr> (None :: string option))
     = \<lparr>vd_id = ''x'', vd_type = TypeObj [(''option'', JInt 1)], vd_interesting_values = JList []\<rparr>
   \<and> fst (from_variable_description example_registry
          \<lparr>vd_id = ''x'', vd_type = TypeObj [(''option'', JInt 1)], vd_interesting_values = JList []\<rparr>
          (None :: string option))
     = Inl (KeyError ''value'')"
proof -
  let ?opts = "[(''value'', JStr ''numeric''), (''option'', JInt 1)]"
  let ?d = "\<lparr>vd_id = ''x'', vd_type = TypeObj ?opts, vd_interesting_values = JList []\<rparr>"
  have 1: "vd_type ?d = TypeObj ?opts" by simp
  have 2: "map_of ?opts ''value'' \<noteq> None" by simp
  have eq: "snd (from_variable_description example_registry ?d (None :: string option))
      = \<lparr>vd_id = ''x'', vd_type = TypeObj [(''option'', JInt 1)], vd_interesting_values = JList []\<rparr>"
    by (simp add: from_variable_description_def registry_get_def example_registry_numeric)
  from pop_mutates_fragment [OF 1, of example_registry "None :: string option"] 2
  have "fst (from_variable_description example_registry
               (snd (from_variable_description example_registry ?d (None :: string option)))
               (None :: string option)) = Inl (KeyError ''value'')"
    by blast
  with eq show ?thesis by simp
qed


section \<open>Formats\<close>

lemma format_error_message:
  "format_error = ValueError ''must be one of the following formats: csv, pickle, parquet''"
  by (simp add: format_error_def FORMATS_def)

lemma lower_CSV: "lower ''CSV'' = ''csv''"
  by code_simp

text \<open>
  The format tag \<^verbatim>\<open>CSV\<close> is outside the set of supported tags, yet
  \<^verbatim>\<open>write_entity_data\<close> lower-cases its argument and writes the table as \<^verbatim>\<open>csv\<close>.
\<close>

theorem unsupported_format_counterexample:
  "''CSV'' \<notin> set FORMATS
   \<and> fst (write_entity_data example_platform example_entity ''/out'' ''CSV'' [] example_fs)
       = Inr \<lparr>wi_location = ''data/customers.csv'', wi_type = ''csv'', wi_params = []\<rparr>"
  by (simp add: FORMATS_def write_entity_data_def lower_CSV example_entity_def path_join_def
      kwargs_subset_def example_platform_def write_table_def write_file_def example_fs_def dirname_def Let_def)

text \<open>
  C3, unsupported format. \<^verbatim>\<open>write_entity_data\<close> with a format whose lower-cased form is not
  supported raises, and leaves the entity and the file system as they were; the error is the
  \<^verbatim>\<open>ValueError\<close> that lists the formats, provided the \<^verbatim>\<open>compression\<close> option, if given, is
  a string (the file name is built first). \<^verbatim>\<open>read_entity_data\<close> on a fragment with a
  location and a format tag that is not supported raises the same error, whatever the file
  system holds. The message enumerates \<^verbatim>\<open>csv, pickle, parquet\<close>.
\<close>

theorem unsupported_format:
  "(lower fmt \<notin> set FORMATS \<longrightarrow>
      (\<exists>e. write_entity_data P entity path fmt kwargs fs = (Inl e, entity, fs))
    \<and> ((\<forall>v. map_of kwargs ''compression'' = Some v \<longrightarrow> (\<exists>s. v = JStr s)) \<longrightarrow>
         write_entity_data P entity path fmt kwargs fs = (Inl format_error, entity, fs)))
   \<and> (li_type (ed_loading_info d) = Some t \<and> t \<notin> set FORMATS \<and> li_location (ed_loading_info d) \<noteq> None \<longrightarrow>
        read_entity_data P d path fs = Inl format_error)
   \<and> format_error = ValueError ''must be one of the following formats: csv, pickle, parquet''"
proof -
  have w1: "\<exists>e. write_entity_data P entity path fmt kwargs fs = (Inl e, entity, fs)"
    if "lower fmt \<notin> set FORMATS"
    using that
    by (auto simp add: write_entity_data_def FORMATS_def Let_def split: option.splits json.splits)
  have w2: "write_entity_data P entity path fmt kwargs fs = (Inl format_error, entity, fs)"
    if "lower fmt \<notin> set FORMATS" "\<forall>v. map_of kwargs ''compression'' = Some v \<longrightarrow> (\<exists>s. v = JStr s)"
    using that
    by (auto simp add: write_entity_data_def FORMATS_def Let_def split: option.splits json.splits)
  have r: "read_entity_data P d path fs = Inl format_error"
    if "li_type (ed_loading_info d) = Some t" "t \<notin> set FORMATS" "li_location (ed_loading_info d) \<noteq> None"
    using that
    by (auto simp add: read_entity_data_def FORMATS_def Let_def split: option.splits)
  from w1 w2 r format_error_message show ?thesis by blast
qed

theorem unsupported_format_witness:
  "write_entity_data example_platform example_entity ''/out'' ''XML'' [(''compression'', JStr ''gzip'')] example_fs
     = (Inl (ValueError ''must be one of the following formats: csv, pickle, parquet''), example_entity, example_fs)
   \<and> read_entity_data example_platform
        ((to_entity_description example_entity)
           \<lparr>ed_loading_info := \<lparr>li_location = Some ''data/customers.xml'', li_type = Some ''xml'',
                                 li_params = Some [], li_dtypes = []\<rparr>\<rparr>) ''/out'' example_fs
     = Inl (ValueError ''must be one of the following formats: csv, pickle, parquet'')"
proof -
  let ?kw = "[(''compression'', JStr ''gzip'')]"
  let ?d = "(to_entity_description example_entity)
           \<lparr>ed_loading_info := \<lparr>li_location = Some ''data/customers.xml'', li_type = Some ''xml'',
                                 li_params = Some [], li_dtypes = []\<rparr>\<rparr>"
  have "lower ''XML'' = ''xml''" by code_simp
  then have 1: "lower ''XML'' \<notin> set FORMATS"
    by (simp add: FORMATS_def)
  have 2: "\<forall>v. map_of ?kw ''compression'' = Some v \<longrightarrow> (\<exists>s. v = JStr s)" by simp
  have 3: "li_type (ed_loading_info ?d) = Some ''xml'' \<and> ''xml'' \<notin> set FORMATS
       \<and> li_location (ed_loading_info ?d) \<noteq> None"
    by (simp add: FORMATS_def)
  from unsupported_format [of "''XML''" example_platform example_entity "''/out''" ?kw example_fs ?d "''xml''"] 1 2 3
  show ?thesis by simp
qed

section \<open>Overwriting an output directory\<close>

lemma in_tree_refl: "in_tree p p"
  by (simp add: in_tree_def)

lemma reset_directory:
  assumes "fs p = Some Directory"
  shows "(if path_exists fs p then rmtree p fs else Inr fs) = Inr (remove_tree p fs)"
  using assms by (simp add: path_exists_def rmtree_def)

lemma reset_removed:
  "(if path_exists (remove_tree p fs) p then rmtree p (remove_tree p fs) else Inr (remove_tree p fs))
     = Inr (remove_tree p fs)"
  by (simp add: path_exists_def remove_tree_def in_tree_refl)

lemma write_data_description_after_reset:
  assumes "(if path_exists fs (abspath P path) then rmtree (abspath P path) fs else Inr fs) = Inr fs1"
    and "(if path_exists fs' (abspath P path) then rmtree (abspath P path) fs' else Inr fs') = Inr fs1"
  shows "write_data_description P es path kwargs fs = write_data_description P es path kwargs fs'"
  unfolding write_data_description_def Let_def using assms by simp

text \<open>
  At a path where a regular file exists, \<^verbatim>\<open>shutil.rmtree\<close> raises: nothing is removed and
  nothing is written.
\<close>

theorem destructive_overwrite_counterexample:
  "path_exists example_stale_fs ''/elsewhere''
   \<and> write_data_description example_platform example_entityset ''/elsewhere'' [] example_stale_fs
       = (Inl (NotADirectoryError ''/elsewhere''), example_entityset, example_stale_fs)"
  by (simp add: write_data_description_def path_exists_def rmtree_def example_stale_fs_def example_platform_def Let_def)

text \<open>
  C6, destructive overwrite. When a directory exists at the absolute path, the call behaves as
  it does on the file system from which that whole tree has been removed: the removal comes
  before the directories are created and before any table or the manifest is written. So
  nothing of the old tree is left: the result, the entity set and the final file system are the
  same for any two file systems that have a directory at the path and agree outside its tree.
\<close>

theorem destructive_overwrite:
  assumes "fs (abspath P path) = Some Directory"
  shows "write_data_description P es path kwargs fs
           = write_data_description P es path kwargs (remove_tree (abspath P path) fs)
       \<and> (\<forall>fs'. fs' (abspath P path) = Some Directory
                 \<and> (\<forall>q. \<not> in_tree (abspath P path) q \<longrightarrow> fs' q = fs q) \<longrightarrow>
              write_data_description P es path kwargs fs' = write_data_description P es path kwargs fs)"
proof -
  let ?root = "abspath P path"
  have first: "write_data_description P es path kwargs fs
           = write_data_description P es path kwargs (remove_tree ?root fs)"
    using reset_directory [of fs ?root, OF assms] reset_removed by (rule write_data_description_after_reset)
  have second: "write_data_description P es path kwargs fs' = write_data_description P es path kwargs fs"
    if dir: "fs' ?root = Some Directory" and same: "\<forall>q. \<not> in_tree ?root q \<longrightarrow> fs' q = fs q" for fs'
  proof -
    from same have "remove_tree ?root fs' = remove_tree ?root fs"
      by (auto simp add: remove_tree_def)
    with reset_directory [of fs' ?root, OF dir] have "(if path_exists fs' ?root then rmtree ?root fs' else Inr fs')
        = Inr (remove_tree ?root fs)" by simp
    then show ?thesis using reset_directory [of fs ?root, OF assms] by (rule write_data_description_after_reset)
  qed
  from first second show ?thesis by blast
qed


text \<open>
  An old output directory with a stale table and an unrelated subdirectory: after the call
  neither is left, and the table of the entity is there.
\<close>

lemma example_lower_csv: "lower ''csv'' = ''csv''"
  by code_simp

theorem destructive_overwrite_witness:
  "fst (write_data_description example_platform example_entityset ''/out'' [] example_stale_fs) = Inr ()
   \<and> snd (snd (write_data_description example_platform example_entityset ''/out'' [] example_stale_fs))
        ''/out/old/notes.csv'' = None
   \<and> snd (snd (write_data_description example_platform example_entityset ''/out'' [] example_stale_fs))
        ''/out/data/stale.csv'' = None
   \<and> snd (snd (write_data_description example_platform example_entityset ''/out'' [] example_stale_fs))
        ''/out/data/customers.csv'' = Some (File (TableBlob (e_df example_entity)))"
proof -
  have root: "abspath example_platform ''/out'' = ''/out''"
    by (simp add: example_platform_def)
  have dir: "example_stale_fs (abspath example_platform ''/out'') = Some Directory"
    by (simp add: root example_stale_fs_def)
  have wiped: "remove_tree ''/out'' example_stale_fs = [''/elsewhere'' \<mapsto> File (TableBlob [])]"
    by (rule ext) (simp add: remove_tree_def in_tree_def example_stale_fs_def)
  from destructive_overwrite [where fs = example_stale_fs and P = example_platform and path = "''/out''"
      and es = example_entityset and kwargs = "[]", OF dir]
  have "write_data_description example_platform example_entityset ''/out'' [] example_stale_fs
      = write_data_description example_platform example_entityset ''/out'' []
          [''/elsewhere'' \<mapsto> File (TableBlob [])]"
    by (simp add: root wiped)
  then show ?thesis
    by (simp add: write_data_description_def root path_exists_def makedirs_def path_join_def
        example_entityset_def call_write_entity_data_def write_entity_data_def example_lower_csv
        example_entity_def kwargs_subset_def write_table_def write_file_def dirname_def
        to_data_description_def to_entity_description_def py_dict_def update_loading_info_def
        variable_to_data_description_def example_platform_def Let_def)
qed
section \<open>Writing a table in the columnar format\<close>

lemma example_lower_parquet: "lower ''parquet'' = ''parquet''"
  by code_simp

text \<open>
  C2, columnar coercion. Writing the example entity, whose column \<^verbatim>\<open>pair\<close> has dtype
  \<^verbatim>\<open>object\<close> and holds the tuple \<^verbatim>\<open>(1, 2)\<close>, as \<^verbatim>\<open>parquet\<close> succeeds and stores the column
  as text; but the conversion is assigned to \<^verbatim>\<open>entity.df\<close> itself, so after the call the
  caller's entity holds the text \<^verbatim>\<open>(1, 2)\<close> in place of the tuple.
\<close>

theorem parquet_write_changes_caller_table:
  "write_entity_data example_platform example_entity ''/out'' ''parquet'' [] example_fs
     = (Inr \<lparr>wi_location = ''data/customers.parquet'', wi_type = ''parquet'', wi_params = []\<rparr>,
        example_entity\<lparr>e_df :=
          [\<lparr>col_name = ''id'', col_dtype = ''int64'', col_cells = [CInt 1, CInt 2]\<rparr>,
           \<lparr>col_name = ''pair'', col_dtype = ''object'', col_cells = [CText ''(1, 2)'', CText ''a'']\<rparr>]\<rparr>,
        example_fs(''/out/data/customers.parquet'' \<mapsto> File (TableBlob
          [\<lparr>col_name = ''id'', col_dtype = ''int64'', col_cells = [CInt 1, CInt 2]\<rparr>,
           \<lparr>col_name = ''pair'', col_dtype = ''object'', col_cells = [CText ''(1, 2)'', CText ''a'']\<rparr>])))
   \<and> e_df (fst (snd (write_entity_data example_platform example_entity ''/out'' ''parquet'' [] example_fs)))
       \<noteq> e_df example_entity"
proof -
  have s1: "str_nat (Suc 0) = ''1''" and s2: "str_nat 2 = ''2''"
    by code_simp+
  have coerced: "object_columns_astype_unicode example_platform (e_df example_entity)
      = [\<lparr>col_name = ''id'', col_dtype = ''int64'', col_cells = [CInt 1, CInt 2]\<rparr>,
         \<lparr>col_name = ''pair'', col_dtype = ''object'', col_cells = [CText ''(1, 2)'', CText ''a'']\<rparr>]"
    by (simp add: object_columns_astype_unicode_def cell_astype_unicode_def example_entity_def
        example_platform_def cell_str_def str_int_def s1 s2)
  have name: "e_id example_entity = ''customers''"
    by (simp add: example_entity_def)
  have enc: "to_parquet example_platform df f kw = Inr (TableBlob df)" for df f kw
    by (simp add: example_platform_def)
  have written: "write_entity_data example_platform example_entity ''/out'' ''parquet'' [] example_fs
     = (Inr \<lparr>wi_location = ''data/customers.parquet'', wi_type = ''parquet'', wi_params = []\<rparr>,
        example_entity\<lparr>e_df := object_columns_astype_unicode example_platform (e_df example_entity)\<rparr>,
        example_fs(''/out/data/customers.parquet'' \<mapsto> File (TableBlob
          (object_columns_astype_unicode example_platform (e_df example_entity)))))"
    by (simp add: write_entity_data_def example_lower_parquet path_join_def write_table_def
        write_file_def dirname_def example_fs_def Let_def name enc)
  have differs: "object_columns_astype_unicode example_platform (e_df example_entity) \<noteq> e_df example_entity"
    unfolding coerced by (simp add: example_entity_def)
  from written coerced differs show ?thesis by simp
qed

section \<open>Reading the manifest\<close>

text \<open>
  C7, precondition and root of \<^verbatim>\<open>read_data_description\<close>. If nothing exists at the absolute
  path, the call fails with the assertion's error, whatever the manifest file or the JSON
  parser would give. If the path exists and the manifest file parses, the result is the parsed
  description with the absolute path under \<^verbatim>\<open>root\<close>.
\<close>

theorem read_data_description_root:
  "(\<not> path_exists fs (abspath P path) \<longrightarrow>
      read_data_description P path fs = Inl (AssertionError (''\"'' @ abspath P path @ ''\" does not exist'')))
   \<and> (path_exists fs (abspath P path)
        \<and> fs (path_join (abspath P path) ''data_description.json'') = Some (File b)
        \<and> json_load P b = Inr d \<longrightarrow>
      read_data_description P path fs = Inr (d\<lparr>dd_root := Some (abspath P path)\<rparr>))"
  by (simp add: read_data_description_def read_file_def)

theorem read_data_description_root_witness:
  "read_data_description example_platform ''/nowhere'' example_written_fs
     = Inl (AssertionError ''\"/nowhere\" does not exist'')
   \<and> read_data_description example_platform ''/out'' example_written_fs
     = Inr (example_manifest\<lparr>dd_root := Some ''/out''\<rparr>)"
proof -
  have 1: "\<not> path_exists example_written_fs (abspath example_platform ''/nowhere'')"
    by (simp add: path_exists_def example_written_fs_def example_platform_def)
  have 2: "path_exists example_written_fs (abspath example_platform ''/out'')
      \<and> example_written_fs (path_join (abspath example_platform ''/out'') ''data_description.json'')
          = Some (File (JsonBlob example_manifest))
      \<and> json_load example_platform (JsonBlob example_manifest) = Inr example_manifest"
    by (simp add: path_exists_def example_written_fs_def example_platform_def path_join_def)
  have a: "abspath example_platform ''/nowhere'' = ''/nowhere''"
    and b: "abspath example_platform ''/out'' = ''/out''"
    by (simp_all add: example_platform_def)
  from read_data_description_root [of example_written_fs example_platform "''/nowhere''"] 1 a
  have "read_data_description example_platform ''/nowhere'' example_written_fs
     = Inl (AssertionError ''\"/nowhere\" does not exist'')" by simp
  moreover
  from read_data_description_root [of example_written_fs example_platform "''/out''"
      "JsonBlob example_manifest" example_manifest] 2 b
  have "read_data_description example_platform ''/out'' example_written_fs
     = Inr (example_manifest\<lparr>dd_root := Some ''/out''\<rparr>)" by simp
  ultimately show ?thesis by simp
qed

section \<open>Reading tables\<close>

lemma cells_astype_length:
  "cells_astype P t cs = Inr cs' \<Longrightarrow> length cs' = length cs"
  by (induction cs arbitrary: cs') (auto split: sum.splits)

lemma astype_columns_names:
  "astype_columns P dtypes df = Inr df' \<Longrightarrow> map col_name df' = map col_name df"
  by (induction df arbitrary: df') (auto split: sum.splits option.splits)

lemma astype_columns_dtype:
  "astype_columns P dtypes df = Inr df' \<Longrightarrow> c \<in> set df' \<Longrightarrow> map_of dtypes (col_name c) = Some t
     \<Longrightarrow> col_dtype c = t"
  by (induction df arbitrary: df') (auto split: sum.splits option.splits)

lemma astype_columns_kept:
  "astype_columns P dtypes df = Inr df' \<Longrightarrow> c \<in> set df' \<Longrightarrow> map_of dtypes (col_name c) = None
     \<Longrightarrow> c \<in> set df"
  by (induction df arbitrary: df') (auto split: sum.splits option.splits)

lemma astype_columns_Cons:
  assumes "astype_columns P dtypes (c # cs) = Inr df'"
  shows "\<exists>c' cs'. df' = c' # cs' \<and> astype_columns P dtypes cs = Inr cs'
           \<and> (map_of dtypes (col_name c) = None \<longrightarrow> c' = c)
           \<and> (\<forall>t. map_of dtypes (col_name c) = Some t \<longrightarrow>
                 (\<exists>cells. series_astype P t (col_cells c) = Inr cells
                    \<and> c' = c\<lparr>col_dtype := t, col_cells := cells\<rparr>))"
proof (cases "map_of dtypes (col_name c)")
  case None
  with assms show ?thesis by (cases "astype_columns P dtypes cs") simp_all
next
  case (Some t)
  show ?thesis
  proof (cases "series_astype P t (col_cells c)")
    case (Inl e)
    with assms Some show ?thesis by simp
  next
    case (Inr cells)
    with assms Some show ?thesis by (cases "astype_columns P dtypes cs") simp_all
  qed
qed

lemma series_astype_length:
  "series_astype P t cs = Inr cs' \<Longrightarrow> length cs' = length cs"
  by (auto simp add: series_astype_def dest: cells_astype_length split: if_splits)

lemma astype_columns_length:
  "astype_columns P dtypes df = Inr df' \<Longrightarrow> map (length \<circ> col_cells) df' = map (length \<circ> col_cells) df"
proof (induction df arbitrary: df')
  case Nil
  then show ?case by simp
next
  case (Cons c cs)
  from astype_columns_Cons [OF Cons.prems]
  obtain c' cs' where all: "df' = c' # cs' \<and> astype_columns P dtypes cs = Inr cs'
           \<and> (map_of dtypes (col_name c) = None \<longrightarrow> c' = c)
           \<and> (\<forall>t. map_of dtypes (col_name c) = Some t \<longrightarrow>
                 (\<exists>cells. series_astype P t (col_cells c) = Inr cells
                    \<and> c' = c\<lparr>col_dtype := t, col_cells := cells\<rparr>))"
    by (elim exE) (rule that)
  from all have df': "df' = c' # cs'" and rest: "astype_columns P dtypes cs = Inr cs'"
    and none: "map_of dtypes (col_name c) = None \<Longrightarrow> c' = c"
    and some: "\<And>t. map_of dtypes (col_name c) = Some t \<Longrightarrow>
           \<exists>cells. series_astype P t (col_cells c) = Inr cells \<and> c' = c\<lparr>col_dtype := t, col_cells := cells\<rparr>"
    by simp_all
  have "length (col_cells c') = length (col_cells c)"
  proof (cases "map_of dtypes (col_name c)")
    case None
    with none show ?thesis by simp
  next
    case (Some t)
    from some [OF Some] obtain cells where "series_astype P t (col_cells c) = Inr cells"
      and "c' = c\<lparr>col_dtype := t, col_cells := cells\<rparr>" by blast
    then show ?thesis by (simp add: series_astype_length)
  qed
  with Cons.IH [OF rest] df' show ?case by simp
qed

lemma astype_result:
  assumes "astype P dtypes df = Inr df'"
  shows "map col_name df' = map col_name df"
    and "map_of dtypes k = Some t \<Longrightarrow> k \<in> set (map col_name df')"
    and "c \<in> set df' \<Longrightarrow> map_of dtypes (col_name c) = Some t \<Longrightarrow> col_dtype c = t"
proof -
  from assms have keys: "\<forall>k \<in> set (map fst dtypes). k \<in> set (map col_name df)"
    and cols: "astype_columns P dtypes df = Inr df'"
    by (auto simp add: astype_def split: if_splits)
  from cols show names: "map col_name df' = map col_name df" by (rule astype_columns_names)
  show "k \<in> set (map col_name df')" if "map_of dtypes k = Some t"
  proof -
    from that have "k \<in> set (map fst dtypes)" by (auto dest: map_of_SomeD intro: rev_image_eqI)
    with keys have "k \<in> set (map col_name df)" by blast
    with names show ?thesis by simp
  qed
  show "col_dtype c = t" if "c \<in> set df'" "map_of dtypes (col_name c) = Some t"
    using cols that by (rule astype_columns_dtype)
qed

lemma kwargs_subset_Nil: "kwargs_subset [] kwargs = []"
  by (simp add: kwargs_subset_def)

lemma kwargs_subset_Cons:
  "kwargs_subset (key # params) kwargs =
     (case map_of kwargs key of None \<Rightarrow> [] | Some v \<Rightarrow> [(key, v)]) @ kwargs_subset params kwargs"
  by (simp add: kwargs_subset_def)

lemma map_of_kwargs_subset:
  "map_of (kwargs_subset params kwargs) k = (if k \<in> set params then map_of kwargs k else None)"
proof (induction params)
  case Nil
  then show ?case by (simp add: kwargs_subset_Nil)
next
  case (Cons key params)
  show ?case
  proof (cases "map_of kwargs key")
    case None
    with Cons show ?thesis by (auto simp add: kwargs_subset_Cons)
  next
    case (Some v)
    with Cons show ?thesis by (auto simp add: kwargs_subset_Cons)
  qed
qed

lemma keys_kwargs_subset:
  "map fst (kwargs_subset params kwargs) = filter (\<lambda>key. map_of kwargs key \<noteq> None) params"
proof (induction params)
  case Nil
  then show ?case by (simp add: kwargs_subset_Nil)
next
  case (Cons key params)
  then show ?case by (cases "map_of kwargs key") (simp_all add: kwargs_subset_Cons)
qed

text \<open>
  C8, the read-side re-cast. For a fragment with a location and a supported format tag,
  \<^verbatim>\<open>read_entity_data\<close> gives the format's reader the file and the options it keeps of the
  stored parameters, and casts what the reader returns to the recorded dtypes. The options it
  keeps are only the listed ones of the format: their names are those names of the list
  (\<^verbatim>\<open>compression\<close>, \<^verbatim>\<open>engine\<close>, \<^verbatim>\<open>encoding\<close> for csv; \<^verbatim>\<open>engine\<close>, \<^verbatim>\<open>columns\<close> for parquet;
  \<^verbatim>\<open>compression\<close> for pickle) that the stored parameters have, each with its stored value, and
  no other stored parameter is among them. Whatever the reader inferred, every column name of
  the recorded dtype map is a column of the returned table and every column of that name has
  the recorded dtype.
\<close>

theorem read_recast:
  assumes "li_location (ed_loading_info d) = Some location"
    and "li_type (ed_loading_info d) = Some format"
    and "format \<in> set FORMATS"
  shows "read_entity_data P d path fs =
           (case read_file (path_join path location) fs of
              Inl e \<Rightarrow> Inl e
            | Inr b \<Rightarrow>
                (case format_reader P format b (path_join path location)
                        (kwargs_subset (whitelisted_options format)
                           (case li_params (ed_loading_info d) of None \<Rightarrow> [] | Some k \<Rightarrow> k)) of
                   Inl e \<Rightarrow> Inl e
                 | Inr inferred \<Rightarrow> astype P (li_dtypes (ed_loading_info d)) inferred))
       \<and> map fst (kwargs_subset (whitelisted_options format)
                     (case li_params (ed_loading_info d) of None \<Rightarrow> [] | Some k \<Rightarrow> k))
           = filter (\<lambda>key. map_of (case li_params (ed_loading_info d) of None \<Rightarrow> [] | Some k \<Rightarrow> k) key \<noteq> None)
               (whitelisted_options format)
       \<and> (\<forall>k. map_of (kwargs_subset (whitelisted_options format)
                         (case li_params (ed_loading_info d) of None \<Rightarrow> [] | Some k \<Rightarrow> k)) k
              = (if k \<in> set (whitelisted_options format)
                 then map_of (case li_params (ed_loading_info d) of None \<Rightarrow> [] | Some k \<Rightarrow> k) k
                 else None))
       \<and> whitelisted_options ''csv'' = [''compression'', ''engine'', ''encoding'']
       \<and> whitelisted_options ''parquet'' = [''engine'', ''columns'']
       \<and> whitelisted_options ''pickle'' = [''compression'']
       \<and> (\<forall>df k t. read_entity_data P d path fs = Inr df \<and> map_of (li_dtypes (ed_loading_info d)) k = Some t \<longrightarrow>
             k \<in> set (map col_name df) \<and> (\<forall>c \<in> set df. col_name c = k \<longrightarrow> col_dtype c = t))"
proof -
  let ?params = "case li_params (ed_loading_info d) of None \<Rightarrow> [] | Some k \<Rightarrow> k"
  let ?passed = "kwargs_subset (whitelisted_options format) ?params"
  let ?rhs = "(case read_file (path_join path location) fs of
              Inl e \<Rightarrow> Inl e
            | Inr b \<Rightarrow>
                (case format_reader P format b (path_join path location) ?passed of
                   Inl e \<Rightarrow> Inl e
                 | Inr inferred \<Rightarrow> astype P (li_dtypes (ed_loading_info d)) inferred))"
  have eq: "read_entity_data P d path fs = ?rhs"
    using assms
    by (auto simp add: read_entity_data_def FORMATS_def format_reader_def whitelisted_options_def
        read_table_def Let_def split: sum.splits)
  have keys: "map fst ?passed = filter (\<lambda>key. map_of ?params key \<noteq> None) (whitelisted_options format)"
    by (rule keys_kwargs_subset)
  have vals: "\<forall>k. map_of ?passed k = (if k \<in> set (whitelisted_options format) then map_of ?params k else None)"
    by (simp add: map_of_kwargs_subset)
  have lists: "whitelisted_options ''csv'' = [''compression'', ''engine'', ''encoding'']"
    "whitelisted_options ''parquet'' = [''engine'', ''columns'']"
    "whitelisted_options ''pickle'' = [''compression'']"
    by (simp_all add: whitelisted_options_def)
  have cast: "k \<in> set (map col_name df) \<and> (\<forall>c \<in> set df. col_name c = k \<longrightarrow> col_dtype c = t)"
    if res: "read_entity_data P d path fs = Inr df" and key: "map_of (li_dtypes (ed_loading_info d)) k = Some t"
    for df k t
  proof -
    from res eq obtain inferred where a: "astype P (li_dtypes (ed_loading_info d)) inferred = Inr df"
      by (auto split: sum.splits)
    from astype_result(2) [OF a key] astype_result(3) [OF a] key show ?thesis by auto
  qed
  from eq keys vals lists cast show ?thesis by blast
qed

text \<open>
  The stored parameters of the example fragment are \<^verbatim>\<open>index\<close> and \<^verbatim>\<open>compression\<close>: the csv
  reader is given \<^verbatim>\<open>compression\<close> only, and the column \<^verbatim>\<open>id\<close>, stored with dtype \<^verbatim>\<open>object\<close>,
  comes back as \<^verbatim>\<open>int64\<close>.
\<close>

theorem read_recast_witness:
  "read_entity_data example_platform example_fragment ''/out'' example_written_fs
     = Inr [\<lparr>col_name = ''id'', col_dtype = ''int64'', col_cells = [CInt 1, CInt 2]\<rparr>,
            \<lparr>col_name = ''pair'', col_dtype = ''object'', col_cells = [CText ''(1, 2)'', CText ''a'']\<rparr>]
   \<and> map fst (kwargs_subset (whitelisted_options ''csv'')
                 [(''index'', JBool False), (''compression'', JStr ''gzip'')]) = [''compression'']
   \<and> map_of (kwargs_subset (whitelisted_options ''csv'')
                [(''index'', JBool False), (''compression'', JStr ''gzip'')]) ''index'' = None
   \<and> map_of (kwargs_subset (whitelisted_options ''csv'')
                [(''index'', JBool False), (''compression'', JStr ''gzip'')]) ''compression''
       = Some (JStr ''gzip'')"
proof -
  have 1: "li_location (ed_loading_info example_fragment) = Some ''data/customers.csv''"
    and 2: "li_type (ed_loading_info example_fragment) = Some ''csv''"
    and 3: "''csv'' \<in> set FORMATS"
    by (simp_all add: example_fragment_def FORMATS_def)
  have params: "(case li_params (ed_loading_info example_fragment) of None \<Rightarrow> [] | Some k \<Rightarrow> k)
      = [(''index'', JBool False), (''compression'', JStr ''gzip'')]"
    by (simp add: example_fragment_def)
  have stored: "read_file (path_join ''/out'' ''data/customers.csv'') example_written_fs
      = Inr (TableBlob example_stored_table)"
    by (simp add: read_file_def path_join_def example_written_fs_def)
  have reader: "format_reader example_platform ''csv'' (TableBlob example_stored_table) name kw
      = Inr example_stored_table" for name kw
    by (simp add: format_reader_def example_platform_def decode_table_def)
  have cast: "astype example_platform (li_dtypes (ed_loading_info example_fragment)) example_stored_table
      = Inr [\<lparr>col_name = ''id'', col_dtype = ''int64'', col_cells = [CInt 1, CInt 2]\<rparr>,
             \<lparr>col_name = ''pair'', col_dtype = ''object'', col_cells = [CText ''(1, 2)'', CText ''a'']\<rparr>]"
    by (simp add: astype_def series_astype_def example_fragment_def example_stored_table_def
        example_platform_def)
  note inst = read_recast [OF 1 2 3, of example_platform "''/out''" example_written_fs, unfolded params]
  from inst stored reader cast
  have table: "read_entity_data example_platform example_fragment ''/out'' example_written_fs
     = Inr [\<lparr>col_name = ''id'', col_dtype = ''int64'', col_cells = [CInt 1, CInt 2]\<rparr>,
            \<lparr>col_name = ''pair'', col_dtype = ''object'', col_cells = [CText ''(1, 2)'', CText ''a'']\<rparr>]"
    by simp
  let ?passed = "kwargs_subset (whitelisted_options ''csv'')
                   [(''index'', JBool False), (''compression'', JStr ''gzip'')]"
  from inst have csv: "whitelisted_options ''csv'' = [''compression'', ''engine'', ''encoding'']"
    by blast
  from inst have "map fst ?passed
      = filter (\<lambda>key. map_of [(''index'', JBool False), (''compression'', JStr ''gzip'')] key \<noteq> None)
          (whitelisted_options ''csv'')" by blast
  then have names: "map fst ?passed = [''compression'']" by (simp add: csv)
  from inst have vals: "\<forall>k. map_of ?passed k
      = (if k \<in> set (whitelisted_options ''csv'')
         then map_of [(''index'', JBool False), (''compression'', JStr ''gzip'')] k else None)"
    by blast
  from vals have no_index: "map_of ?passed ''index'' = None" by (simp add: csv)
  from vals have compression: "map_of ?passed ''compression'' = Some (JStr ''gzip'')" by (simp add: csv)
  from table names no_index compression show ?thesis by blast
qed

lemma cells_astype_Nil: "cells_astype P t [] = Inr []"
  by simp

lemma astype_columns_empty_ok:
  "\<forall>c \<in> set df. col_cells c = [] \<Longrightarrow> \<forall>t \<in> snd ` set dtypes. dtype_exists P t
     \<Longrightarrow> \<exists>df'. astype_columns P dtypes df = Inr df'"
proof (induction df)
  case Nil
  then show ?case by simp
next
  case (Cons c cs)
  then obtain cs' where cs': "astype_columns P dtypes cs = Inr cs'" by auto
  show ?case
  proof (cases "map_of dtypes (col_name c)")
    case None
    with cs' show ?thesis by simp
  next
    case (Some t)
    then have "t \<in> snd ` set dtypes" by (auto dest: map_of_SomeD intro: rev_image_eqI)
    with Cons.prems have "dtype_exists P t" by blast
    with Cons.prems Some cs' show ?thesis by (simp add: series_astype_def)
  qed
qed

lemma astype_columns_empty_cells:
  "astype_columns P dtypes df = Inr df' \<Longrightarrow> \<forall>c \<in> set df. col_cells c = [] \<Longrightarrow> c' \<in> set df'
     \<Longrightarrow> col_cells c' = []"
proof -
  assume a: "astype_columns P dtypes df = Inr df'" and e: "\<forall>c \<in> set df. col_cells c = []" and m: "c' \<in> set df'"
  from e have "map (length \<circ> col_cells) df = map (\<lambda>c. 0) df" by simp
  with astype_columns_length [OF a] have "map (length \<circ> col_cells) df' = map (\<lambda>c. 0) df" by simp
  then have "\<forall>x \<in> set (map (length \<circ> col_cells) df'). x = 0" by auto
  with m show ?thesis by auto
qed

lemma astype_columns_object:
  assumes "astype_columns P dtypes df = Inr df'" and "\<forall>c \<in> set df. col_dtype c = ''object''"
    and "c' \<in> set df'"
  shows "col_dtype c' = (case map_of dtypes (col_name c') of Some t \<Rightarrow> t | None \<Rightarrow> ''object'')"
proof (cases "map_of dtypes (col_name c')")
  case None
  from astype_columns_kept [OF assms(1) assms(3) None] assms(2) have "col_dtype c' = ''object''" by blast
  with None show ?thesis by simp
next
  case (Some t)
  from astype_columns_dtype [OF assms(1) assms(3) Some] Some show ?thesis by simp
qed

lemma register_entity_member: "e \<in> set (register_entity e es)"
  by (auto simp add: register_entity_def)

lemma entity_from_dataframe_registered:
  assumes "entity_from_dataframe es entity_id df i ti sti vts = Inr es'"
  shows "\<exists>e \<in> set (es_entities es'). e_id e = entity_id \<and> e_df e = df"
proof (cases "make_variables entity_id vts")
  case (Inl e)
  with assms show ?thesis by (simp add: entity_from_dataframe_def)
next
  case (Inr variables)
  let ?e = "\<lparr>e_id = entity_id, e_df = df, e_index = i, e_time_index = ti,
             e_secondary_time_index = sti, e_last_time_index = None, e_variables = variables\<rparr>"
  from assms Inr have "es_entities es' = register_entity ?e (es_entities es)"
    by (auto simp add: entity_from_dataframe_def)
  with register_entity_member [of ?e "es_entities es"] have "?e \<in> set (es_entities es')" by simp
  moreover have "e_id ?e = entity_id \<and> e_df ?e = df" by simp
  ultimately show ?thesis by blast
qed

lemma from_entity_description_Inr:
  assumes "fst (from_entity_description P reg d es path fs) = Inr es'"
  shows "\<exists>df vts. (case path of Some p \<Rightarrow> read_entity_data P d p fs | None \<Rightarrow> empty_dataframe P d) = Inr df
           \<and> entity_from_dataframe es (ed_id d) df (ed_index d) (ed_time_index d)
                (ed_secondary_time_index d) vts = Inr es'"
proof (cases "case path of Some p \<Rightarrow> read_entity_data P d p fs | None \<Rightarrow> empty_dataframe P d")
  case (Inl e)
  with assms show ?thesis by (simp add: from_entity_description_def)
next
  case (Inr df)
  obtain r vs' where vt: "variable_types_of reg (ed_variables d) = (r, vs')" by (cases "variable_types_of reg (ed_variables d)")
  show ?thesis
  proof (cases r)
    case (Inl e)
    with assms Inr vt show ?thesis by (simp add: from_entity_description_def)
  next
    case r: (Inr vts)
    with assms Inr vt show ?thesis by (auto simp add: from_entity_description_def)
  qed
qed

text \<open>
  C9, schema-only reconstruction. The table \<^verbatim>\<open>empty_dataframe\<close> returns has the fragment's
  variable identifiers as its columns, in order, no cells, and for each column the dtype
  recorded for it (\<^verbatim>\<open>object\<close> if none is recorded); it does return one when every recorded
  column is a variable and every recorded dtype exists. With no path
  \<^verbatim>\<open>from_entity_description\<close> registers the entity with that table, with a path it registers
  the entity with the table \<^verbatim>\<open>read_entity_data\<close> reads.
\<close>

theorem schema_only_reconstruction:
  "(\<forall>df. empty_dataframe P d = Inr df \<longrightarrow>
       map col_name df = map vd_id (ed_variables d)
     \<and> (\<forall>c \<in> set df. col_cells c = []
           \<and> col_dtype c = (case map_of (li_dtypes (ed_loading_info d)) (col_name c) of
                              Some t \<Rightarrow> t | None \<Rightarrow> ''object'')))
   \<and> (set (map fst (li_dtypes (ed_loading_info d))) \<subseteq> set (map vd_id (ed_variables d))
        \<and> (\<forall>t \<in> snd ` set (li_dtypes (ed_loading_info d)). dtype_exists P t) \<longrightarrow>
      (\<exists>df. empty_dataframe P d = Inr df))
   \<and> (\<forall>es'. fst (from_entity_description P reg d es None fs) = Inr es' \<longrightarrow>
        (\<exists>df. empty_dataframe P d = Inr df
            \<and> (\<exists>e \<in> set (es_entities es'). e_id e = ed_id d \<and> e_df e = df)))
   \<and> (\<forall>es' p. fst (from_entity_description P reg d es (Some p) fs) = Inr es' \<longrightarrow>
        (\<exists>df. read_entity_data P d p fs = Inr df
            \<and> (\<exists>e \<in> set (es_entities es'). e_id e = ed_id d \<and> e_df e = df)))"
proof -
  let ?empty = "map (\<lambda>name. \<lparr>col_name = name, col_dtype = ''object'', col_cells = []\<rparr>)
                  (map vd_id (ed_variables d))"
  let ?dtypes = "li_dtypes (ed_loading_info d)"
  have names0: "map col_name ?empty = map vd_id (ed_variables d)" by (simp add: comp_def)
  have shape: "map col_name df = map vd_id (ed_variables d)
     \<and> (\<forall>c \<in> set df. col_cells c = []
           \<and> col_dtype c = (case map_of ?dtypes (col_name c) of Some t \<Rightarrow> t | None \<Rightarrow> ''object''))"
    if "empty_dataframe P d = Inr df" for df
  proof -
    from that have a: "astype_columns P ?dtypes ?empty = Inr df"
      by (auto simp add: empty_dataframe_def astype_def Let_def split: if_splits)
    have e: "\<forall>c \<in> set ?empty. col_cells c = []" and ob: "\<forall>c \<in> set ?empty. col_dtype c = ''object''"
      by auto
    from astype_columns_names [OF a] names0 have "map col_name df = map vd_id (ed_variables d)" by simp
    moreover have "col_cells c = []" if "c \<in> set df" for c
      using astype_columns_empty_cells [OF a e that] .
    moreover have "col_dtype c = (case map_of ?dtypes (col_name c) of Some t \<Rightarrow> t | None \<Rightarrow> ''object'')"
      if "c \<in> set df" for c
      using astype_columns_object [OF a ob that] .
    ultimately show ?thesis by blast
  qed
  have succeeds: "\<exists>df. empty_dataframe P d = Inr df"
    if keys: "set (map fst ?dtypes) \<subseteq> set (map vd_id (ed_variables d))"
      and known: "\<forall>t \<in> snd ` set ?dtypes. dtype_exists P t"
  proof -
    have e: "\<forall>c \<in> set ?empty. col_cells c = []" by auto
    from astype_columns_empty_ok [OF e known] obtain df where "astype_columns P ?dtypes ?empty = Inr df" ..
    moreover from keys names0 have "\<forall>k \<in> set (map fst ?dtypes). k \<in> set (map col_name ?empty)"
      by (simp only: subset_iff) blast
    ultimately have "astype P ?dtypes ?empty = Inr df" by (simp only: astype_def) simp
    then show ?thesis by (simp only: empty_dataframe_def Let_def) blast
  qed
  have none: "\<exists>df. empty_dataframe P d = Inr df \<and> (\<exists>e \<in> set (es_entities es'). e_id e = ed_id d \<and> e_df e = df)"
    if "fst (from_entity_description P reg d es None fs) = Inr es'" for es'
  proof -
    from from_entity_description_Inr [OF that] obtain df vts where "empty_dataframe P d = Inr df"
      and "entity_from_dataframe es (ed_id d) df (ed_index d) (ed_time_index d)
             (ed_secondary_time_index d) vts = Inr es'" by auto
    with entity_from_dataframe_registered show ?thesis by blast
  qed
  have some: "\<exists>df. read_entity_data P d p fs = Inr df \<and> (\<exists>e \<in> set (es_entities es'). e_id e = ed_id d \<and> e_df e = df)"
    if "fst (from_entity_description P reg d es (Some p) fs) = Inr es'" for es' p
  proof -
    from from_entity_description_Inr [OF that] obtain df vts where "read_entity_data P d p fs = Inr df"
      and "entity_from_dataframe es (ed_id d) df (ed_index d) (ed_time_index d)
             (ed_secondary_time_index d) vts = Inr es'" by auto
    with entity_from_dataframe_registered show ?thesis by blast
  qed
  from shape succeeds none some show ?thesis by blast
qed

theorem schema_only_reconstruction_witness:
  "\<exists>df. empty_dataframe example_platform example_fragment = Inr df
        \<and> map col_name df = [''id'', ''pair'']
        \<and> list_all (\<lambda>c. col_cells c = []) df"
proof -
  note inst = schema_only_reconstruction
    [of example_platform example_fragment example_registry "\<lparr>es_entities = [], es_relationships = []\<rparr>"
      example_written_fs]
  have keys: "set (map fst (li_dtypes (ed_loading_info example_fragment)))
      \<subseteq> set (map vd_id (ed_variables example_fragment))
      \<and> (\<forall>t \<in> snd ` set (li_dtypes (ed_loading_info example_fragment)). dtype_exists example_platform t)"
    by (simp add: example_fragment_def example_platform_def)
  from inst [THEN conjunct2, THEN conjunct1] keys
  have "\<exists>df. empty_dataframe example_platform example_fragment = Inr df" by (rule mp)
  then obtain df where df: "empty_dataframe example_platform example_fragment = Inr df" ..
  note shape = inst [THEN conjunct1, rule_format, OF df]
  from shape [THEN conjunct1] have names: "map col_name df = [''id'', ''pair'']"
    by (simp add: example_fragment_def)
  from shape [THEN conjunct2] have "\<forall>c \<in> set df. col_cells c = []" by blast
  then have cells: "list_all (\<lambda>c. col_cells c = []) df"
    by (simp add: list_all_iff)
  from df names cells show ?thesis by (intro exI [of _ df] conjI)
qed

section \<open>Unknown type tags\<close>

lemma has_string_tagE:
  assumes "has_string_tag v"
  shows "\<exists>s. fragment_tag v = Some (JStr s)"
proof (cases "fragment_tag v")
  case None
  with assms show ?thesis by (simp add: has_string_tag_def)
next
  case (Some j)
  with assms show ?thesis by (cases j) (simp_all add: has_string_tag_def)
qed

lemma from_variable_description_string_tag:
  assumes "fragment_tag v = Some (JStr s)"
  shows "fst (from_variable_description reg v (None :: string option))
           = Inr (VariableClass (case reg (Some s) of Some c \<Rightarrow> Some c | None \<Rightarrow> reg None))"
proof (cases "vd_type v")
  case (TypeStr s')
  with assms show ?thesis by (simp add: fragment_tag_def from_variable_description_def registry_get_def)
next
  case (TypeObj opts)
  with assms show ?thesis by (simp add: fragment_tag_def from_variable_description_def registry_get_def)
qed

lemma variable_types_of_ok:
  assumes dflt: "reg None = Some dflt"
  shows "list_all has_string_tag vs \<Longrightarrow>
     \<exists>xs vs'. variable_types_of reg vs = (Inr xs, vs')
        \<and> (\<forall>x \<in> snd ` set xs. \<exists>cls. x = VariableClass (Some cls))"
proof (induction vs)
  case Nil
  then show ?case by simp
next
  case (Cons v vs)
  from Cons.prems have "has_string_tag v" by simp
  then obtain s where tag: "fragment_tag v = Some (JStr s)" using has_string_tagE by blast
  obtain r v' where fv: "from_variable_description reg v (None :: string option) = (r, v')"
    by (cases "from_variable_description reg v (None :: string option)")
  from from_variable_description_string_tag [OF tag, of reg] fv
  have r: "r = Inr (VariableClass (case reg (Some s) of Some c \<Rightarrow> Some c | None \<Rightarrow> reg None))"
    by simp
  from dflt obtain cls where cls: "(case reg (Some s) of Some c \<Rightarrow> Some c | None \<Rightarrow> reg None) = Some cls"
    by (cases "reg (Some s)") simp_all
  from Cons.prems have "list_all has_string_tag vs" by simp
  from Cons.IH [OF this] obtain xs vs' where rest: "variable_types_of reg vs = (Inr xs, vs')"
    and all: "\<forall>x \<in> snd ` set xs. \<exists>cls. x = VariableClass (Some cls)" by blast
  from fv r cls rest have "variable_types_of reg (v # vs) = (Inr ((vd_id v', VariableClass (Some cls)) # xs), v' # vs')"
    by simp
  with all show ?case by auto
qed

lemma update_set: "set (AList.update k v al) \<subseteq> insert (k, v) (set al)"
  by (induction al) auto

lemma py_dict_fold_set:
  "set (fold (\<lambda>kv d. AList.update (fst kv) (snd kv) d) kvs acc) \<subseteq> set kvs \<union> set acc"
proof (induction kvs arbitrary: acc)
  case Nil
  then show ?case by simp
next
  case (Cons kv kvs)
  have "set (fold (\<lambda>kv d. AList.update (fst kv) (snd kv) d) kvs (AList.update (fst kv) (snd kv) acc))
          \<subseteq> set kvs \<union> set (AList.update (fst kv) (snd kv) acc)"
    by (rule Cons.IH)
  also have "\<dots> \<subseteq> set kvs \<union> insert kv (set acc)"
    using update_set [of "fst kv" "snd kv" acc] by auto
  finally show ?case by auto
qed

lemma py_dict_set: "set (py_dict kvs) \<subseteq> set kvs"
  using py_dict_fold_set [of kvs "[]"] by (simp add: py_dict_def)

lemma make_variables_ok:
  "\<forall>x \<in> snd ` set xs. \<exists>cls. x = VariableClass (Some cls) \<Longrightarrow> \<exists>vs. make_variables entity_id xs = Inr vs"
proof (induction xs)
  case Nil
  then show ?case by simp
next
  case (Cons x xs)
  obtain name y where x: "x = (name, y)" by (cases x)
  with Cons.prems obtain cls where y: "y = VariableClass (Some cls)" by auto
  from Cons.prems have "\<forall>x \<in> snd ` set xs. \<exists>cls. x = VariableClass (Some cls)" by simp
  from Cons.IH [OF this] obtain vs where "make_variables entity_id xs = Inr vs" ..
  with x y show ?case by simp
qed

text \<open>
  C4, unknown type leniency. A fragment whose tag is a string that no class is registered under
  does not make \<^verbatim>\<open>from_variable_description\<close> fail: the result is what the registry holds
  under \<^verbatim>\<open>None\<close>, the default class. If there is such a default and every variable fragment
  of an entity fragment carries a string tag, registered or not, then
  \<^verbatim>\<open>from_entity_description\<close> completes whenever its table is obtained.
\<close>

theorem unknown_type_leniency:
  "(fragment_tag v = Some (JStr s) \<and> reg (Some s) = None \<longrightarrow>
      fst (from_variable_description reg v (None :: string option)) = Inr (VariableClass (reg None)))
   \<and> (reg None = Some dflt \<and> list_all has_string_tag (ed_variables d)
        \<and> (case path of Some p \<Rightarrow> read_entity_data P d p fs | None \<Rightarrow> empty_dataframe P d) = Inr df \<longrightarrow>
      (\<exists>es'. fst (from_entity_description P reg d es path fs) = Inr es'))"
proof -
  have one: "fst (from_variable_description reg v (None :: string option)) = Inr (VariableClass (reg None))"
    if "fragment_tag v = Some (JStr s)" "reg (Some s) = None"
    using from_variable_description_string_tag [OF that(1), of reg] that(2) by simp
  have load: "\<exists>es'. fst (from_entity_description P reg d es path fs) = Inr es'"
    if dflt: "reg None = Some dflt" and tags: "list_all has_string_tag (ed_variables d)"
      and table: "(case path of Some p \<Rightarrow> read_entity_data P d p fs | None \<Rightarrow> empty_dataframe P d) = Inr df"
  proof -
    from variable_types_of_ok [of reg dflt, OF dflt tags] obtain xs vs'
      where vt: "variable_types_of reg (ed_variables d) = (Inr xs, vs')"
        and all: "\<forall>x \<in> snd ` set xs. \<exists>cls. x = VariableClass (Some cls)" by blast
    from all py_dict_set [of xs] have "\<forall>x \<in> snd ` set (py_dict xs). \<exists>cls. x = VariableClass (Some cls)"
      by blast
    from make_variables_ok [OF this] obtain variables
      where "make_variables (ed_id d) (py_dict xs) = Inr variables" ..
    with table vt show ?thesis
      by (simp add: from_entity_description_def entity_from_dataframe_def)
  qed
  from one load show ?thesis by blast
qed

theorem unknown_type_leniency_witness:
  "fst (from_variable_description example_registry
          \<lparr>vd_id = ''pair'', vd_type = TypeStr ''unheard_of'', vd_interesting_values = JList []\<rparr>
          (None :: string option))
     = Inr (VariableClass (Some \<lparr>vt_name = ''Variable'', type_string = None\<rparr>))
   \<and> (\<exists>es'. fst (from_entity_description example_platform example_registry example_fragment
                  \<lparr>es_entities = [], es_relationships = []\<rparr> None example_written_fs) = Inr es')"
proof -
  let ?v = "\<lparr>vd_id = ''pair'', vd_type = TypeStr ''unheard_of'', vd_interesting_values = JList []\<rparr>"
  let ?df = "[\<lparr>col_name = ''id'', col_dtype = ''int64'', col_cells = []\<rparr>,
              \<lparr>col_name = ''pair'', col_dtype = ''object'', col_cells = []\<rparr>]"
  have tag: "fragment_tag ?v = Some (JStr ''unheard_of'') \<and> example_registry (Some ''unheard_of'') = None"
    by (simp add: fragment_tag_def example_registry_other)
  have tags: "list_all has_string_tag (ed_variables example_fragment)"
    by (simp add: example_fragment_def has_string_tag_def fragment_tag_def)
  have table: "(case None of Some p \<Rightarrow> read_entity_data example_platform example_fragment p example_written_fs
                | None \<Rightarrow> empty_dataframe example_platform example_fragment) = Inr ?df"
    by (simp add: empty_dataframe_def astype_def series_astype_def example_fragment_def example_platform_def)
  note inst = unknown_type_leniency [where v = ?v and s = "''unheard_of''" and reg = example_registry
      and dflt = "\<lparr>vt_name = ''Variable'', type_string = None\<rparr>" and d = example_fragment
      and path = None and P = example_platform and fs = example_written_fs and df = ?df
      and es = "\<lparr>es_entities = [], es_relationships = []\<rparr>"]
  from inst tag example_registry_None tags table show ?thesis by simp
qed

end
